theory Spec2Isabelle
  imports Complex_Main "HOL-Library.Code_Target_Numeral"
begin

section \<open>JavaScript values\<close>

subsection \<open>Numbers\<close>

text \<open>
  A JavaScript number is an IEEE 754 binary64 value: NaN, an infinity, or a finite value
  with a sign, so that \<open>Finite True 0\<close> is \<open>-0\<close>. The magnitude of a finite value is
  kept as a rational; the arithmetic below rounds every result to the nearest
  representable magnitude (ties to even), as the language does.
\<close>

datatype jsnum = NaN | Infinity bool | Finite bool rat

definition num :: "nat \<Rightarrow> jsnum" where
  "num n = Finite False (of_nat n)"

fun bit_length :: "nat \<Rightarrow> nat" where
  "bit_length n = (if n = 0 then 0 else Suc (bit_length (n div 2)))"

declare bit_length.simps [simp del]

definition pow2 :: "int \<Rightarrow> rat" where
  "pow2 k = (if 0 \<le> k then 2 ^ nat k else 1 / 2 ^ nat (- k))"

definition floor_log2 :: "rat \<Rightarrow> int" where
  "floor_log2 q =
     (if 1 \<le> q then int (bit_length (nat \<lfloor>q\<rfloor>)) - 1
      else - int (bit_length (nat (\<lceil>1 / q\<rceil> - 1))))"

definition round_half_even :: "rat \<Rightarrow> int" where
  "round_half_even x =
     (let f = \<lfloor>x\<rfloor>; d = x - of_int f
      in if d < 1 / 2 then f else if 1 / 2 < d then f + 1
         else if even f then f else f + 1)"

definition round_double :: "bool \<Rightarrow> rat \<Rightarrow> jsnum" where
  "round_double s q =
     (if q = 0 then Finite s 0
      else let e = max (floor_log2 q) (- 1022);
               ulp = pow2 (e - 52);
               r = of_int (round_half_even (q / ulp)) * ulp
           in if pow2 1024 \<le> r then Infinity s else Finite s r)"

text \<open>The operator \<^verbatim>\<open>*\<close> on numbers.\<close>

fun js_mul :: "jsnum \<Rightarrow> jsnum \<Rightarrow> jsnum" where
  "js_mul NaN y = NaN"
| "js_mul x NaN = NaN"
| "js_mul (Infinity s) (Infinity t) = Infinity (s \<noteq> t)"
| "js_mul (Infinity s) (Finite t q) = (if q = 0 then NaN else Infinity (s \<noteq> t))"
| "js_mul (Finite s p) (Infinity t) = (if p = 0 then NaN else Infinity (s \<noteq> t))"
| "js_mul (Finite s p) (Finite t q) = round_double (s \<noteq> t) (p * q)"

subsection \<open>Values\<close>

text \<open>
  The values a parsed JSON body can hold, and \<^verbatim>\<open>undefined\<close>, which reading a
  missing property or an index out of range gives. An object is the list of its own
  properties, read by the first entry of a name.
\<close>

datatype jsval =
    JUndefined
  | JNull
  | JBool bool
  | JNum jsnum
  | JStr string
  | JArr "jsval list"
  | JObj "(string \<times> jsval) list"

datatype failure = Exit nat | TypeError | SyntaxError | FetchError | FsError

text \<open>
  The conversions between strings and numbers are the engine's own (the StringToNumber
  and Number::toString operations of the language); the program is modelled for any
  such pair.
\<close>

record engine =
  StringToNumber :: "string \<Rightarrow> jsnum"
  NumberToString :: "jsnum \<Rightarrow> string"

definition nullish :: "jsval \<Rightarrow> bool" where
  "nullish v = (v = JUndefined \<or> v = JNull)"

text \<open>\<^verbatim>\<open>a ?? b\<close>\<close>

definition coalesce :: "jsval \<Rightarrow> jsval \<Rightarrow> jsval" where
  "coalesce a b = (if nullish a then b else a)"

text \<open>ToBoolean: what \<^verbatim>\<open>if (v)\<close>, \<^verbatim>\<open>!v\<close> and \<^verbatim>\<open>filter(Boolean)\<close> test.\<close>

fun truthy :: "jsval \<Rightarrow> bool" where
  "truthy JUndefined = False"
| "truthy JNull = False"
| "truthy (JBool b) = b"
| "truthy (JNum NaN) = False"
| "truthy (JNum (Infinity s)) = True"
| "truthy (JNum (Finite s q)) = (q \<noteq> 0)"
| "truthy (JStr s) = (s \<noteq> [])"
| "truthy (JArr xs) = True"
| "truthy (JObj ps) = True"

text \<open>
  Reading a named property of a value that is neither \<^verbatim>\<open>null\<close> nor
  \<^verbatim>\<open>undefined\<close>. The names the program reads (\<^verbatim>\<open>name\<close>, \<^verbatim>\<open>id\<close>,
  \<^verbatim>\<open>items\<close>, \<^verbatim>\<open>title\<close>, ...) are no members of the built-in prototypes, so
  only an object's own properties answer.
\<close>

fun get_prop :: "jsval \<Rightarrow> string \<Rightarrow> jsval" where
  "get_prop (JObj ps) k = (case map_of ps k of Some v \<Rightarrow> v | None \<Rightarrow> JUndefined)"
| "get_prop v k = JUndefined"

text \<open>\<^verbatim>\<open>v.k\<close>: a TypeError on \<^verbatim>\<open>null\<close> and \<^verbatim>\<open>undefined\<close>.\<close>

definition member :: "jsval \<Rightarrow> string \<Rightarrow> failure + jsval" where
  "member v k = (if nullish v then Inl TypeError else Inr (get_prop v k))"

text \<open>\<^verbatim>\<open>v?.k\<close>\<close>

definition opt_member :: "jsval \<Rightarrow> string \<Rightarrow> jsval" where
  "opt_member v k = (if nullish v then JUndefined else get_prop v k)"

fun show_nat :: "nat \<Rightarrow> string" where
  "show_nat n =
     (if n < 10 then [''0123456789'' ! n]
      else show_nat (n div 10) @ [''0123456789'' ! (n mod 10)])"

declare show_nat.simps [simp del]

text \<open>
  \<^verbatim>\<open>row[idx]\<close> for an index \<open>idx\<close>: an element of an array, a one-character
  string of a string, the property of that decimal name of an object, and
  \<^verbatim>\<open>undefined\<close> where there is none; a TypeError on \<^verbatim>\<open>null\<close> and
  \<^verbatim>\<open>undefined\<close>.
\<close>

fun index :: "jsval \<Rightarrow> nat \<Rightarrow> failure + jsval" where
  "index JUndefined i = Inl TypeError"
| "index JNull i = Inl TypeError"
| "index (JArr xs) i = Inr (if i < length xs then xs ! i else JUndefined)"
| "index (JStr s) i = Inr (if i < length s then JStr [s ! i] else JUndefined)"
| "index (JObj ps) i = Inr (get_prop (JObj ps) (show_nat i))"
| "index v i = Inr JUndefined"

fun join_with :: "string \<Rightarrow> string list \<Rightarrow> string" where
  "join_with sep [] = []"
| "join_with sep [s] = s"
| "join_with sep (s # t # ss) = s @ sep @ join_with sep (t # ss)"

text \<open>
  Whether \<^verbatim>\<open>String(v)\<close> returns. An object converts through the
  \<^verbatim>\<open>toString\<close> it inherits; an own property of that name, which in a parsed body
  is never a function, takes its place and leaves the object with no conversion to a
  primitive value, a TypeError. An array converts its elements in turn, all but
  \<^verbatim>\<open>null\<close> and \<^verbatim>\<open>undefined\<close>.
\<close>

fun stringifies :: "jsval \<Rightarrow> bool" where
  "stringifies (JArr xs) = (\<forall>x \<in> set xs. nullish x \<or> stringifies x)"
| "stringifies (JObj ps) = (map_of ps ''toString'' = None)"
| "stringifies v = True"

text \<open>
  The string \<^verbatim>\<open>String(v)\<close> returns when it does. An array prints as its elements
  joined by commas, \<^verbatim>\<open>null\<close> and \<^verbatim>\<open>undefined\<close> elements as nothing.
\<close>

fun string_of :: "engine \<Rightarrow> jsval \<Rightarrow> string" where
  "string_of E JUndefined = ''undefined''"
| "string_of E JNull = ''null''"
| "string_of E (JBool b) = (if b then ''true'' else ''false'')"
| "string_of E (JNum n) = NumberToString E n"
| "string_of E (JStr s) = s"
| "string_of E (JArr xs) =
     join_with '','' (map (\<lambda>x. if nullish x then [] else string_of E x) xs)"
| "string_of E (JObj ps) = ''[object Object]''"

text \<open>\<^verbatim>\<open>String(v)\<close>\<close>

definition to_string :: "engine \<Rightarrow> jsval \<Rightarrow> failure + string" where
  "to_string E v = (if stringifies v then Inr (string_of E v) else Inl TypeError)"

text \<open>
  \<^verbatim>\<open>Number(v)\<close>. Arrays and objects convert through their string, and throw where
  that throws.
\<close>

fun to_number :: "engine \<Rightarrow> jsval \<Rightarrow> failure + jsnum" where
  "to_number E JUndefined = Inr NaN"
| "to_number E JNull = Inr (num 0)"
| "to_number E (JBool b) = Inr (if b then num 1 else num 0)"
| "to_number E (JNum n) = Inr n"
| "to_number E (JStr s) = Inr (StringToNumber E s)"
| "to_number E (JArr xs) =
     (case to_string E (JArr xs) of Inl e \<Rightarrow> Inl e | Inr s \<Rightarrow> Inr (StringToNumber E s))"
| "to_number E (JObj ps) =
     (case to_string E (JObj ps) of Inl e \<Rightarrow> Inl e | Inr s \<Rightarrow> Inr (StringToNumber E s))"

subsection \<open>Failing computations\<close>

definition bind :: "failure + 'a \<Rightarrow> ('a \<Rightarrow> failure + 'b) \<Rightarrow> failure + 'b" where
  "bind m f = (case m of Inl e \<Rightarrow> Inl e | Inr x \<Rightarrow> f x)"

text \<open>\<^verbatim>\<open>xs.map(f)\<close> for a callback that may throw: the first throw ends the map.\<close>

fun map_throwing :: "('a \<Rightarrow> failure + 'b) \<Rightarrow> 'a list \<Rightarrow> failure + 'b list" where
  "map_throwing f [] = Inr []"
| "map_throwing f (x # xs) =
     bind (f x) (\<lambda>y. bind (map_throwing f xs) (\<lambda>ys. Inr (y # ys)))"

section \<open>The metrics transform\<close>

record Metrics =
  views :: jsnum
  watch_time_minutes :: jsnum
  watch_time_seconds :: jsnum
  average_view_duration_sec :: jsnum
  likes :: jsnum
  comments :: jsnum
  shares :: jsnum

record MetricsRow =
  videoId :: string
  metrics :: Metrics

text \<open>
  The \<^verbatim>\<open>headerIndex\<close> map of \<^verbatim>\<open>transformRows\<close>: \<^verbatim>\<open>forEach\<close> visits the
  headers with their positions, and a later header of the same name overwrites an
  earlier one. Any truthy name is a key; the program looks up strings only, which equal
  no key but the same string.
\<close>

definition set_header :: "(jsval \<rightharpoonup> nat) \<Rightarrow> nat \<times> jsval \<Rightarrow> (jsval \<rightharpoonup> nat)" where
  "set_header m p =
     (case p of (i, header) \<Rightarrow>
        if truthy (opt_member header ''name'') then m(get_prop header ''name'' \<mapsto> i) else m)"

definition headerIndex :: "jsval list \<Rightarrow> (jsval \<rightharpoonup> nat)" where
  "headerIndex hs = foldl set_header Map.empty (zip [0 ..< length hs] hs)"

definition getNumber :: "engine \<Rightarrow> (jsval \<rightharpoonup> nat) \<Rightarrow> jsval \<Rightarrow> string \<Rightarrow> failure + jsnum" where
  "getNumber E hi row key =
     (case hi (JStr key) of
        None \<Rightarrow> Inr (num 0)
      | Some idx \<Rightarrow>
          bind (index row idx) (\<lambda>v.
          bind (to_number E v) (\<lambda>n.
            Inr (if n = NaN then num 0 else n))))"

definition getString :: "engine \<Rightarrow> (jsval \<rightharpoonup> nat) \<Rightarrow> jsval \<Rightarrow> string \<Rightarrow> failure + string" where
  "getString E hi row key =
     (case hi (JStr key) of
        None \<Rightarrow> Inr []
      | Some idx \<Rightarrow>
          bind (index row idx) (\<lambda>v.
            case v of JStr s \<Rightarrow> Inr s | _ \<Rightarrow> to_string E (coalesce v (JStr []))))"

definition transformRow :: "engine \<Rightarrow> (jsval \<rightharpoonup> nat) \<Rightarrow> jsval \<Rightarrow> failure + MetricsRow" where
  "transformRow E hi row =
     bind (getString E hi row ''video'') (\<lambda>vid.
     bind (getNumber E hi row ''estimatedMinutesWatched'') (\<lambda>watchTimeMinutes.
     bind (getNumber E hi row ''averageViewDuration'') (\<lambda>averageViewDuration.
     bind (getNumber E hi row ''views'') (\<lambda>v.
     bind (getNumber E hi row ''likes'') (\<lambda>l.
     bind (getNumber E hi row ''comments'') (\<lambda>c.
     bind (getNumber E hi row ''shares'') (\<lambda>s.
       Inr \<lparr> videoId = vid,
             metrics = \<lparr> views = v,
                         watch_time_minutes = watchTimeMinutes,
                         watch_time_seconds = js_mul watchTimeMinutes (num 60),
                         average_view_duration_sec = averageViewDuration,
                         likes = l,
                         comments = c,
                         shares = s \<rparr> \<rparr>)))))))"

text \<open>
  \<^verbatim>\<open>transformRows(columnHeaders = [], rows = [])\<close>: a parameter that is
  \<^verbatim>\<open>undefined\<close> takes its default. \<^verbatim>\<open>columnHeaders.forEach\<close> is a TypeError
  unless the headers are an array.
\<close>

definition default_param :: "jsval \<Rightarrow> jsval \<Rightarrow> jsval" where
  "default_param v d = (if v = JUndefined then d else v)"

definition transformRows :: "engine \<Rightarrow> jsval \<Rightarrow> jsval \<Rightarrow> failure + MetricsRow list" where
  "transformRows E columnHeaders rows =
     (case default_param rows (JArr []) of
        JArr rs \<Rightarrow>
          if rs = [] then Inr []
          else (case default_param columnHeaders (JArr []) of
                  JArr hs \<Rightarrow> map_throwing (transformRow E (headerIndex hs)) rs
                | _ \<Rightarrow> Inl TypeError)
      | _ \<Rightarrow> Inr [])"

text \<open>
  The columns \<^verbatim>\<open>transformRows\<close> reads with \<^verbatim>\<open>getNumber\<close>, each with the
  field of the result that holds it.
\<close>

definition metric_columns :: "(string \<times> (Metrics \<Rightarrow> jsnum)) list" where
  "metric_columns =
     [(''views'', views),
      (''estimatedMinutesWatched'', watch_time_minutes),
      (''averageViewDuration'', average_view_duration_sec),
      (''likes'', likes),
      (''comments'', comments),
      (''shares'', shares)]"

section \<open>Calendar dates\<close>

text \<open>
  A date is the number of its local calendar day, counted from 1970-01-01.
  \<^verbatim>\<open>subDays\<close> and \<^verbatim>\<open>format\<close> are the date library's: \<^verbatim>\<open>subDays\<close> moves
  the calendar day back, \<^verbatim>\<open>format(d, 'yyyy-MM-dd')\<close> prints the proleptic Gregorian
  year, month and day of the month, padded with zeros (a year before 1 prints as
  \<open>1 - year\<close>).
\<close>

definition subDays :: "int \<Rightarrow> int \<Rightarrow> int" where
  "subDays date amount = date - amount"

definition civil_from_days :: "int \<Rightarrow> int \<times> int \<times> int" where
  "civil_from_days z0 =
     (let z = z0 + 719468;
          era = z div 146097;
          doe = z - era * 146097;
          yoe = (doe - doe div 1460 + doe div 36524 - doe div 146096) div 365;
          doy = doe - (365 * yoe + yoe div 4 - yoe div 100);
          mp = (5 * doy + 2) div 153;
          d = doy - (153 * mp + 2) div 5 + 1;
          m = (if mp < 10 then mp + 3 else mp - 9);
          y = yoe + era * 400 + (if m \<le> 2 then 1 else 0)
      in (y, m, d))"

definition addLeadingZeros :: "int \<Rightarrow> nat \<Rightarrow> string" where
  "addLeadingZeros n targetLength =
     (let out = show_nat (nat \<bar>n\<bar>)
      in (if n < 0 then ''-'' else []) @ replicate (targetLength - length out) CHR ''0'' @ out)"

definition format_yyyy_MM_dd :: "int \<Rightarrow> string" where
  "format_yyyy_MM_dd date =
     (case civil_from_days date of (y, m, d) \<Rightarrow>
        addLeadingZeros (if 0 < y then y else 1 - y) 4 @ ''-'' @
        addLeadingZeros m 2 @ ''-'' @ addLeadingZeros d 2)"

text \<open>The number of calendar days from \<open>a\<close> to \<open>b\<close>, both counted.\<close>

definition days_inclusive :: "int \<Rightarrow> int \<Rightarrow> int" where
  "days_inclusive a b = b - a + 1"

section \<open>The process and its surroundings\<close>

text \<open>
  What the run does to the outside, in order. A request for video metadata carries the
  chunk of identifiers; its \<^verbatim>\<open>id\<close> parameter is \<open>join_with '','' chunk\<close>. A
  request carries the access token as the value the exchange returned; printing it into
  the \<^verbatim>\<open>Authorization\<close> header is not modelled.
\<close>

datatype call =
    EnsureDir string
  | TokenRequest
  | AnalyticsRequest jsval string string
  | VideosRequest jsval "string list"
  | WriteJson string "jsval list"

text \<open>
  A response: \<^verbatim>\<open>response.ok\<close>, and the body as \<^verbatim>\<open>response.json()\<close> parses it
  (\<open>None\<close> when the body is not JSON, a SyntaxError).
\<close>

record http_response =
  ok :: bool
  json :: "jsval option"

text \<open>
  The surroundings of one run: the environment variables, the answers of the three
  endpoints (\<open>None\<close> when \<^verbatim>\<open>fetch\<close> rejects), the outcome of the file system
  operations, the working directory, the platform's \<^verbatim>\<open>path.join\<close> and the calendar
  day at the two reads of the clock.
  The videos endpoint answers the request issued at offset \<open>i\<close> of the identifier list.
\<close>

record world =
  env :: "string \<Rightarrow> string option"
  cwd :: string
  path_join :: "string list \<Rightarrow> string"
  ensureDir_ok :: "string \<Rightarrow> bool"
  writeJson_ok :: "string \<Rightarrow> bool"
  token_endpoint :: "http_response option"
  reports_endpoint :: "jsval \<Rightarrow> string \<Rightarrow> string \<Rightarrow> http_response option"
  videos_endpoint :: "nat \<Rightarrow> string list \<Rightarrow> http_response option"
  today_at_fetch :: int
  today_at_save :: int

type_synonym 'a eff = "call list \<times> (failure + 'a)"

definition pure :: "'a \<Rightarrow> 'a eff" where
  "pure x = ([], Inr x)"

definition lift :: "failure + 'a \<Rightarrow> 'a eff" where
  "lift r = ([], r)"

definition request :: "call \<Rightarrow> failure + 'a \<Rightarrow> 'a eff" where
  "request c r = ([c], r)"

definition eff_bind :: "'a eff \<Rightarrow> ('a \<Rightarrow> 'b eff) \<Rightarrow> 'b eff" where
  "eff_bind m f =
     (case m of
        (cs, Inl e) \<Rightarrow> (cs, Inl e)
      | (cs, Inr x) \<Rightarrow> (case f x of (cs', r) \<Rightarrow> (cs @ cs', r)))"

definition fetched :: "http_response option \<Rightarrow> failure + http_response" where
  "fetched r = (case r of None \<Rightarrow> Inl FetchError | Some resp \<Rightarrow> Inr resp)"

definition response_json :: "http_response \<Rightarrow> failure + jsval" where
  "response_json resp = (case json resp of None \<Rightarrow> Inl SyntaxError | Some v \<Rightarrow> Inr v)"

subsection \<open>Environment and token exchange\<close>

definition REQUIRED_ENV :: "string list" where
  "REQUIRED_ENV = [''YT_CLIENT_ID'', ''YT_CLIENT_SECRET'', ''YT_REFRESH_TOKEN'']"

definition assertEnv :: "world \<Rightarrow> failure + unit" where
  "assertEnv W =
     (let missing = filter (\<lambda>key. case env W key of None \<Rightarrow> True | Some v \<Rightarrow> v = [])
                      REQUIRED_ENV
      in if missing \<noteq> [] then Inl (Exit 1) else Inr ())"

definition exchangeRefreshToken :: "world \<Rightarrow> jsval eff" where
  "exchangeRefreshToken W =
     eff_bind (request TokenRequest (fetched (token_endpoint W))) (\<lambda>response.
       if \<not> ok response then lift (Inl (Exit 1))
       else
         eff_bind (lift (response_json response)) (\<lambda>data.
         eff_bind (lift (member data ''access_token'')) (\<lambda>access_token.
           if \<not> truthy access_token then lift (Inl (Exit 1))
           else pure access_token)))"

subsection \<open>Metrics fetch\<close>

definition fetchAnalytics :: "world \<Rightarrow> jsval \<Rightarrow> jsval eff" where
  "fetchAnalytics W accessToken =
     (let today = today_at_fetch W;
          startDate = format_yyyy_MM_dd (subDays today 28);
          endDate = format_yyyy_MM_dd today
      in eff_bind
           (request (AnalyticsRequest accessToken startDate endDate)
              (fetched (reports_endpoint W accessToken startDate endDate)))
           (\<lambda>response.
              if \<not> ok response then lift (Inl (Exit 1))
              else lift (response_json response)))"

subsection \<open>Metadata enrichment\<close>

record VideoMetadata =
  title :: jsval
  description :: jsval
  tags :: jsval
  publishedAt :: jsval
  privacyStatus :: jsval

text \<open>
  The callback of \<^verbatim>\<open>payload.items?.forEach\<close>: an item without a truthy
  \<^verbatim>\<open>id\<close> is skipped, any other sets the entry of its \<^verbatim>\<open>id\<close> in the map. The
  map is read with the string identifiers of the rows only.
\<close>

definition add_item :: "(jsval \<rightharpoonup> VideoMetadata) \<Rightarrow> jsval \<Rightarrow> (jsval \<rightharpoonup> VideoMetadata)" where
  "add_item result item =
     (if \<not> truthy (opt_member item ''id'') then result
      else
        let snippet = coalesce (get_prop item ''snippet'') (JObj []);
            status = coalesce (get_prop item ''status'') (JObj [])
        in result(get_prop item ''id'' \<mapsto>
             \<lparr> title = coalesce (get_prop snippet ''title'') JNull,
               description = coalesce (get_prop snippet ''description'') JNull,
               tags = (case get_prop snippet ''tags'' of JArr ts \<Rightarrow> JArr ts | _ \<Rightarrow> JArr []),
               publishedAt = coalesce (get_prop snippet ''publishedAt'') JNull,
               privacyStatus = coalesce (get_prop status ''privacyStatus'') JNull \<rparr>))"

text \<open>
  \<^verbatim>\<open>payload.items?.forEach(...)\<close>: nothing when \<^verbatim>\<open>items\<close> is missing or
  \<^verbatim>\<open>null\<close>, a TypeError when it is anything but an array.
\<close>

definition add_items :: "jsval \<Rightarrow> (jsval \<rightharpoonup> VideoMetadata) \<Rightarrow> failure + (jsval \<rightharpoonup> VideoMetadata)" where
  "add_items payload result =
     bind (member payload ''items'') (\<lambda>items.
       if nullish items then Inr result
       else (case items of
               JArr its \<Rightarrow> Inr (foldl add_item result its)
             | _ \<Rightarrow> Inl TypeError))"

definition chunkSize :: nat where
  "chunkSize = 50"

function fetch_chunks ::
  "world \<Rightarrow> jsval \<Rightarrow> string list \<Rightarrow> nat \<Rightarrow> (jsval \<rightharpoonup> VideoMetadata) \<Rightarrow> (jsval \<rightharpoonup> VideoMetadata) eff"
where
  "fetch_chunks W accessToken videoIds i result =
     (if i < length videoIds then
        let chunk = take chunkSize (drop i videoIds)
        in eff_bind
             (request (VideosRequest accessToken chunk) (fetched (videos_endpoint W i chunk)))
             (\<lambda>response.
                if \<not> ok response then lift (Inl (Exit 1))
                else
                  eff_bind (lift (response_json response)) (\<lambda>payload.
                  eff_bind (lift (add_items payload result)) (\<lambda>result'.
                    fetch_chunks W accessToken videoIds (i + chunkSize) result')))
      else pure result)"
  by pat_completeness auto
termination
  by (relation "measure (\<lambda>(W, accessToken, videoIds, i, result). length videoIds - i)")
     (auto simp: chunkSize_def)

declare fetch_chunks.simps [simp del]

definition fetchVideoMetadata :: "world \<Rightarrow> jsval \<Rightarrow> string list \<Rightarrow> (jsval \<rightharpoonup> VideoMetadata) eff" where
  "fetchVideoMetadata W accessToken videoIds =
     (if videoIds = [] then pure Map.empty
      else fetch_chunks W accessToken videoIds 0 Map.empty)"

subsection \<open>Normalization\<close>

text \<open>\<^verbatim>\<open>standardize\<close> of \<^verbatim>\<open>utils.js\<close>: destructuring \<^verbatim>\<open>null\<close> or
  \<^verbatim>\<open>undefined\<close> is a TypeError; a default stands in for a property that is
  \<^verbatim>\<open>undefined\<close>.\<close>

definition standardize :: "jsval \<Rightarrow> failure + jsval" where
  "standardize input =
     (if nullish input then Inl TypeError
      else Inr (JObj
        [(''platform'', get_prop input ''platform''),
         (''post_id'', get_prop input ''post_id''),
         (''permalink'', get_prop input ''permalink''),
         (''created_at'', default_param (get_prop input ''created_at'') JNull),
         (''text'', default_param (get_prop input ''text'') JNull),
         (''hashtags'', default_param (get_prop input ''hashtags'') (JArr [])),
         (''metrics'', default_param (get_prop input ''metrics'') (JObj [])),
         (''extra'', default_param (get_prop input ''extra'') (JObj []))]))"

definition metrics_object :: "Metrics \<Rightarrow> jsval" where
  "metrics_object m =
     JObj [(''views'', JNum (views m)),
           (''watch_time_minutes'', JNum (watch_time_minutes m)),
           (''watch_time_seconds'', JNum (watch_time_seconds m)),
           (''average_view_duration_sec'', JNum (average_view_duration_sec m)),
           (''likes'', JNum (likes m)),
           (''comments'', JNum (comments m)),
           (''shares'', JNum (shares m))]"

text \<open>\<^verbatim>\<open>meta?.field\<close> for the entry the metadata map holds, if any.\<close>

definition meta_field :: "VideoMetadata option \<Rightarrow> (VideoMetadata \<Rightarrow> jsval) \<Rightarrow> jsval" where
  "meta_field meta f = (case meta of None \<Rightarrow> JUndefined | Some m \<Rightarrow> f m)"

definition normalize_row :: "(jsval \<rightharpoonup> VideoMetadata) \<Rightarrow> MetricsRow \<Rightarrow> failure + jsval" where
  "normalize_row metadataMap r =
     (let meta = metadataMap (JStr (videoId r))
      in if truthy (meta_field meta privacyStatus) \<and> meta_field meta privacyStatus \<noteq> JStr ''public''
         then Inr JNull
         else standardize (JObj
           [(''platform'', JStr ''youtube''),
            (''post_id'', JStr (videoId r)),
            (''permalink'', JStr (''https://www.youtube.com/watch?v='' @ videoId r)),
            (''created_at'', coalesce (meta_field meta publishedAt) JNull),
            (''text'', coalesce (meta_field meta description) JNull),
            (''hashtags'', coalesce (meta_field meta tags) (JArr [])),
            (''metrics'', metrics_object (metrics r)),
            (''extra'', if truthy (meta_field meta title)
                        then JObj [(''title'', meta_field meta title)] else JObj [])]))"

definition normalize :: "(jsval \<rightharpoonup> VideoMetadata) \<Rightarrow> MetricsRow list \<Rightarrow> failure + jsval list" where
  "normalize metadataMap rawRecords =
     bind (map_throwing (normalize_row metadataMap) rawRecords) (\<lambda>xs. Inr (filter truthy xs))"

subsection \<open>Persistence and the main run\<close>

definition saveStandardJson :: "world \<Rightarrow> string \<Rightarrow> jsval list \<Rightarrow> string eff" where
  "saveStandardJson W platform records =
     (let analyticsDir = path_join W [cwd W, ''data'', ''analytics'']
      in eff_bind
           (request (EnsureDir analyticsDir)
              (if ensureDir_ok W analyticsDir then Inr () else Inl FsError))
           (\<lambda>u.
              let stamp = format_yyyy_MM_dd (today_at_save W);
                  filePath = path_join W [analyticsDir, stamp @ ''-'' @ platform @ ''-analytics.json'']
              in eff_bind
                   (request (WriteJson filePath records)
                      (if writeJson_ok W filePath then Inr () else Inl FsError))
                   (\<lambda>u. pure filePath)))"

definition videoIds_of :: "MetricsRow list \<Rightarrow> string list" where
  "videoIds_of rawRecords = filter (\<lambda>s. truthy (JStr s)) (map videoId rawRecords)"

text \<open>
  Lines 194 to 215 of \<^verbatim>\<open>main\<close>: the identifiers sent to the enrichment, the
  metadata map it returns, and the records built from the rows and the map.
\<close>

definition enrich_and_normalize :: "world \<Rightarrow> jsval \<Rightarrow> MetricsRow list \<Rightarrow> (jsval list) eff" where
  "enrich_and_normalize W accessToken rawRecords =
     eff_bind (fetchVideoMetadata W accessToken (videoIds_of rawRecords)) (\<lambda>metadataMap.
       lift (normalize metadataMap rawRecords))"

definition main_body :: "engine \<Rightarrow> world \<Rightarrow> (jsval list) eff" where
  "main_body E W =
     eff_bind (lift (assertEnv W)) (\<lambda>u.
     eff_bind (request (EnsureDir ''data/analytics'')
                 (if ensureDir_ok W ''data/analytics'' then Inr () else Inl FsError)) (\<lambda>u.
     eff_bind (exchangeRefreshToken W) (\<lambda>accessToken.
     eff_bind (fetchAnalytics W accessToken) (\<lambda>analyticsPayload.
     eff_bind (lift (member analyticsPayload ''columnHeaders'')) (\<lambda>columnHeaders.
     eff_bind (lift (member analyticsPayload ''rows'')) (\<lambda>rows.
     eff_bind (lift (transformRows E columnHeaders rows)) (\<lambda>rawRecords.
     eff_bind (enrich_and_normalize W accessToken rawRecords) (\<lambda>records.
     eff_bind (saveStandardJson W ''youtube'' records) (\<lambda>filePath.
       pure records)))))))))"

text \<open>
  \<^verbatim>\<open>main\<close>: the calls made and the exit code. \<^verbatim>\<open>process.exit(1)\<close> ends the
  process where it stands; anything thrown is caught and ends it with code 1 as well.
\<close>

definition main :: "engine \<Rightarrow> world \<Rightarrow> call list \<times> nat" where
  "main E W =
     (case main_body E W of
        (cs, Inl (Exit n)) \<Rightarrow> (cs, n)
      | (cs, Inl e) \<Rightarrow> (cs, 1)
      | (cs, Inr records) \<Rightarrow> (cs, 0))"

section \<open>An example run\<close>

text \<open>
  Surroundings in which every request succeeds: the report has one row for the video
  \<open>a\<close>, and the videos endpoint answers each identifier of a chunk with an item of the
  given privacy status. Paths are joined with a slash.
\<close>

definition video_item :: "jsval \<Rightarrow> string \<Rightarrow> jsval" where
  "video_item privacy vid =
     JObj [(''id'', JStr vid),
           (''snippet'', JObj [(''title'', JStr ''Launch''),
                               (''publishedAt'', JStr ''2024-01-02T03:04:05Z'')]),
           (''status'', JObj [(''privacyStatus'', privacy)])]"

definition example_world :: "jsval \<Rightarrow> world" where
  "example_world privacy =
     \<lparr> env = (\<lambda>key. Some ''configured''),
       cwd = ''/work'',
       path_join = join_with ''/'',
       ensureDir_ok = (\<lambda>path. True),
       writeJson_ok = (\<lambda>path. True),
       token_endpoint =
         Some \<lparr> ok = True, json = Some (JObj [(''access_token'', JStr ''ya29'')]) \<rparr>,
       reports_endpoint = (\<lambda>accessToken startDate endDate.
         Some \<lparr> ok = True,
                json = Some (JObj
                  [(''columnHeaders'', JArr [JObj [(''name'', JStr ''video'')],
                                             JObj [(''name'', JStr ''views'')]]),
                   (''rows'', JArr [JArr [JStr ''a'', JNum (num 10)]])]) \<rparr>),
       videos_endpoint = (\<lambda>i chunk.
         Some \<lparr> ok = True,
                json = Some (JObj [(''items'', JArr (map (video_item privacy) chunk))]) \<rparr>),
       today_at_fetch = 19751,
       today_at_save = 19751 \<rparr>"

definition example_row :: "string \<Rightarrow> MetricsRow" where
  "example_row vid =
     \<lparr> videoId = vid,
       metrics = \<lparr> views = num 10, watch_time_minutes = num 0, watch_time_seconds = num 0,
                   average_view_duration_sec = num 0, likes = num 0, comments = num 0,
                   shares = num 0 \<rparr> \<rparr>"

section \<open>Properties of the metrics transform\<close>

subsection \<open>Failing computations and the map over the rows\<close>

lemma bind_eq_Inr: "bind m f = Inr y \<longleftrightarrow> (\<exists>x. m = Inr x \<and> f x = Inr y)"
  by (cases m) (simp_all add: bind_def)

lemma map_throwing_Inr:
  "map_throwing f xs = Inr ys \<Longrightarrow>
     length ys = length xs \<and> (\<forall>i<length xs. f (xs ! i) = Inr (ys ! i))"
proof (induction xs arbitrary: ys)
  case Nil
  then show ?case by simp
next
  case (Cons x xs)
  from Cons.prems obtain y zs where fx: "f x = Inr y" and rest: "map_throwing f xs = Inr zs"
    and ys: "ys = y # zs"
    by (auto simp: bind_eq_Inr)
  from Cons.IH [OF rest] have len: "length zs = length xs"
    and nth: "\<And>i. i < length xs \<Longrightarrow> f (xs ! i) = Inr (zs ! i)" by simp_all
  show ?case
  proof (intro conjI allI impI)
    show "length ys = length (x # xs)" using ys len by simp
  next
    fix i assume "i < length (x # xs)"
    then show "f ((x # xs) ! i) = Inr (ys ! i)"
      using fx nth ys by (cases i) simp_all
  qed
qed

lemma map_throwing_total:
  "(\<And>x. x \<in> set xs \<Longrightarrow> \<exists>y. f x = Inr y) \<Longrightarrow> \<exists>ys. map_throwing f xs = Inr ys"
proof (induction xs)
  case Nil
  then show ?case by simp
next
  case (Cons x xs)
  then obtain y where "f x = Inr y" by (meson list.set_intros(1))
  moreover from Cons obtain ys where "map_throwing f xs = Inr ys" by (meson list.set_intros(2))
  ultimately show ?case by (simp add: bind_def)
qed

subsection \<open>What a transformed row holds\<close>

lemma transformRow_Inr:
  assumes "transformRow E hi row = Inr r"
  shows "getString E hi row ''video'' = Inr (videoId r)"
    and "getNumber E hi row ''estimatedMinutesWatched'' = Inr (watch_time_minutes (metrics r))"
    and "getNumber E hi row ''averageViewDuration'' = Inr (average_view_duration_sec (metrics r))"
    and "getNumber E hi row ''views'' = Inr (views (metrics r))"
    and "getNumber E hi row ''likes'' = Inr (likes (metrics r))"
    and "getNumber E hi row ''comments'' = Inr (comments (metrics r))"
    and "getNumber E hi row ''shares'' = Inr (shares (metrics r))"
    and "watch_time_seconds (metrics r) = js_mul (watch_time_minutes (metrics r)) (num 60)"
  using assms unfolding transformRow_def bind_eq_Inr by auto

lemma transformRow_metric_columns:
  assumes "transformRow E hi row = Inr r" and "(key, field) \<in> set metric_columns"
  shows "getNumber E hi row key = Inr (field (metrics r))"
  using assms(2) transformRow_Inr [OF assms(1)] unfolding metric_columns_def by auto

lemma transformRows_Inr:
  assumes "transformRows E columnHeaders rows = Inr out" and "out \<noteq> []"
  shows "\<exists>hs rs. default_param columnHeaders (JArr []) = JArr hs \<and> rows = JArr rs \<and>
           map_throwing (transformRow E (headerIndex hs)) rs = Inr out"
  using assms unfolding transformRows_def default_param_def
  by (auto split: jsval.splits if_splits)

lemma transformRows_nth:
  assumes "transformRows E columnHeaders rows = Inr out" and "i < length out"
  shows "\<exists>hs rs. default_param columnHeaders (JArr []) = JArr hs \<and> rows = JArr rs \<and>
           length rs = length out \<and>
           transformRow E (headerIndex hs) (rs ! i) = Inr (out ! i)"
proof -
  from assms(2) have "out \<noteq> []" by auto
  from transformRows_Inr [OF assms(1) this] obtain hs rs where
    hs: "default_param columnHeaders (JArr []) = JArr hs" and rs: "rows = JArr rs" and
    m: "map_throwing (transformRow E (headerIndex hs)) rs = Inr out" by blast
  from map_throwing_Inr [OF m] assms(2) have "length rs = length out"
    and "transformRow E (headerIndex hs) (rs ! i) = Inr (out ! i)" by simp_all
  with hs rs show ?thesis by blast
qed

lemma getNumber_Inr:
  assumes "getNumber E hi row key = Inr n"
  shows "case hi (JStr key) of
           None \<Rightarrow> n = num 0
         | Some idx \<Rightarrow> \<exists>v m. index row idx = Inr v \<and> to_number E v = Inr m \<and>
                         n = (if m = NaN then num 0 else m)"
proof (cases "hi (JStr key)")
  case None
  with assms show ?thesis by (simp add: getNumber_def)
next
  case (Some idx)
  with assms obtain v m where "index row idx = Inr v" and "to_number E v = Inr m"
    and "n = (if m = NaN then num 0 else m)"
    by (auto simp: getNumber_def bind_eq_Inr)
  with Some show ?thesis by simp
qed








text \<open>A cell that is an object with an own \<^verbatim>\<open>toString\<close> makes the transform throw.\<close>

lemma transformRows_throwing_cell:
  "transformRows E (JArr [JObj [(''name'', JStr ''video'')]])
     (JArr [JArr [JObj [(''toString'', JNum (num 1))]]]) = Inl TypeError"
  by (simp add: transformRows_def default_param_def headerIndex_def set_header_def
      opt_member_def nullish_def transformRow_def getString_def bind_def coalesce_def
      to_string_def)


subsection \<open>Multiplication of whole numbers\<close>

lemma bit_length_bounds: "0 < n \<Longrightarrow> 2 ^ (bit_length n - 1) \<le> n \<and> n < 2 ^ bit_length n"
proof (induction n rule: bit_length.induct)
  case (1 n)
  show ?case
  proof (cases "n div 2 = 0")
    case True
    with "1.prems" have "n = 1" by (simp add: div_eq_0_iff)
    then show ?thesis by (simp add: bit_length.simps)
  next
    case False
    then have pos: "0 < n div 2" by simp
    from "1.IH" [OF _ pos] "1.prems"
    have lo: "2 ^ (bit_length (n div 2) - 1) \<le> n div 2"
      and hi: "n div 2 < 2 ^ bit_length (n div 2)"
      by simp_all
    have bl: "bit_length n = Suc (bit_length (n div 2))"
      using "1.prems" by (subst bit_length.simps) simp
    have blpos: "0 < bit_length (n div 2)"
      using pos by (subst bit_length.simps) simp
    have "2 * 2 ^ (bit_length (n div 2) - 1) \<le> 2 * (n div 2)" using lo by simp
    also have "\<dots> \<le> n" by simp
    finally have "2 ^ (bit_length n - 1) \<le> n"
      using bl blpos by (simp add: power_Suc [symmetric] del: power_Suc)
    moreover have "n < 2 * 2 ^ bit_length (n div 2)" using hi by linarith
    ultimately show ?thesis using bl by simp
  qed
qed

lemma round_half_even_of_int [simp]: "round_half_even (of_int k) = k"
  by (simp add: round_half_even_def)

text \<open>A whole number up to \<open>2 ^ 53\<close> is a binary64 value: rounding leaves it as it is.\<close>

lemma round_double_of_nat:
  assumes "k \<le> 2 ^ 53"
  shows "round_double s (of_nat k) = Finite s (of_nat k)"
proof (cases "k = 0")
  case True
  then show ?thesis by (simp add: round_double_def)
next
  case False
  then have kpos: "0 < k" by simp
  define b where "b = bit_length k"
  from bit_length_bounds [OF kpos] have lo: "2 ^ (b - 1) \<le> k" and hi: "k < 2 ^ b"
    by (simp_all add: b_def)
  have bpos: "0 < b" using kpos unfolding b_def by (subst bit_length.simps) simp
  have le53: "(2::nat) ^ (b - 1) \<le> 2 ^ 53" using lo assms by linarith
  have b54: "b - 1 \<le> 53"
    by (rule power_le_imp_le_exp [where a = "2::nat"], simp, fact)
  have fl: "floor_log2 (of_nat k) = int b - 1"
    using kpos by (simp add: floor_log2_def b_def)
  have e: "max (floor_log2 (of_nat k)) (- 1022) = int b - 1"
    using fl bpos by simp
  have small: "\<not> pow2 1024 \<le> (of_nat k :: rat)"
  proof -
    have "(of_nat k :: rat) \<le> of_nat (2 ^ 53)" using assms by (simp only: of_nat_le_iff)
    also have "\<dots> < 2 ^ 1024" by simp
    finally show ?thesis by (simp add: pow2_def)
  qed
  show ?thesis
  proof (cases "b - 1 \<le> 52")
    case True
    define j where "j = 52 - (b - 1)"
    have ulp: "pow2 (int b - 1 - 52) = 1 / 2 ^ j"
      using True bpos unfolding pow2_def j_def
      by (auto simp: nat_diff_distrib' intro!: arg_cong [where f = "\<lambda>n. 1 / 2 ^ n"])
    have q: "(of_nat k :: rat) / (1 / 2 ^ j) = of_int (int k * 2 ^ j)" by simp
    have "round_double s (of_nat k) = Finite s (of_int (int k * 2 ^ j) * (1 / 2 ^ j))"
      using False small unfolding round_double_def e ulp Let_def q round_half_even_of_int
      by simp
    then show ?thesis by simp
  next
    case False
    with b54 have b: "b = 54" by linarith
    with lo assms have k: "k = 2 ^ 53" by simp
    have ulp: "pow2 (int b - 1 - 52) = 2" by (simp add: b pow2_def)
    have q: "(of_nat k :: rat) / 2 = of_int (2 ^ 52)" by (simp add: k)
    have "round_double s (of_nat k) = Finite s (of_int (2 ^ 52) * 2)"
      using \<open>k \<noteq> 0\<close> small unfolding round_double_def e ulp Let_def q round_half_even_of_int
      by (simp add: k)
    then show ?thesis by (simp add: k)
  qed
qed

lemma js_mul_num_exact: "m * n \<le> 2 ^ 53 \<Longrightarrow> js_mul (num m) (num n) = num (m * n)"
  using round_double_of_nat [of "m * n" False] by (simp add: num_def)

lemma num_not_NaN [simp]: "num n \<noteq> NaN"
  by (simp add: num_def)

subsection \<open>The claims about the transform\<close>

text \<open>
  C3. For every row the transform returns, \<open>watch_time_seconds\<close> is the product, as the
  language computes it, of \<open>watch_time_minutes\<close> and 60, and \<open>watch_time_minutes\<close> is
  what \<^verbatim>\<open>getNumber\<close> reads in the column \<^verbatim>\<open>estimatedMinutesWatched\<close> of that
  row: no column of the row is read for the seconds. Where the minutes are a whole number
  \<open>n\<close> with \<open>n * 60 \<le> 2 ^ 53\<close>, the product is the whole number \<open>n * 60\<close> itself.
\<close>

theorem watch_time_seconds_derived:
  assumes "transformRows E columnHeaders rows = Inr out" and "i < length out"
  shows "\<exists>hs rs. default_param columnHeaders (JArr []) = JArr hs \<and> rows = JArr rs \<and>
           length rs = length out \<and>
           getNumber E (headerIndex hs) (rs ! i) ''estimatedMinutesWatched''
             = Inr (watch_time_minutes (metrics (out ! i))) \<and>
           watch_time_seconds (metrics (out ! i))
             = js_mul (watch_time_minutes (metrics (out ! i))) (num 60) \<and>
           (\<forall>n. watch_time_minutes (metrics (out ! i)) = num n \<and> n * 60 \<le> 2 ^ 53 \<longrightarrow>
                watch_time_seconds (metrics (out ! i)) = num (n * 60))"
proof -
  from transformRows_nth [OF assms] obtain hs rs where
    hs: "default_param columnHeaders (JArr []) = JArr hs" and rs: "rows = JArr rs" and
    len: "length rs = length out" and
    row: "transformRow E (headerIndex hs) (rs ! i) = Inr (out ! i)" by blast
  note r = transformRow_Inr(2,8) [OF row]
  have "watch_time_seconds (metrics (out ! i)) = num (n * 60)"
    if "watch_time_minutes (metrics (out ! i)) = num n \<and> n * 60 \<le> 2 ^ 53" for n
    using that r(2) js_mul_num_exact [of n 60] by simp
  with hs rs len r show ?thesis by blast
qed

theorem watch_time_seconds_derived_witness:
  "\<forall>E. \<exists>out.
     transformRows E (JArr [JObj [(''name'', JStr ''estimatedMinutesWatched'')]])
       (JArr [JArr [JNum (num 7)]]) = Inr out \<and>
     0 < length out \<and>
     watch_time_minutes (metrics (out ! 0)) = num 7 \<and>
     watch_time_seconds (metrics (out ! 0)) = num 420"
proof
  fix E
  let ?H = "JArr [JObj [(''name'', JStr ''estimatedMinutesWatched'')]]"
  let ?R = "JArr [JArr [JNum (num 7)]]"
  obtain out where run: "transformRows E ?H ?R = Inr out" and len: "length out = 1"
    and m: "watch_time_minutes (metrics (out ! 0)) = num 7"
    by (simp add: transformRows_def default_param_def headerIndex_def set_header_def
        opt_member_def nullish_def transformRow_def getString_def getNumber_def bind_def
        Let_def)
  from len have "0 < length out" by simp
  from watch_time_seconds_derived [OF run this]
  have "\<forall>n. watch_time_minutes (metrics (out ! 0)) = num n \<and> n * 60 \<le> 2 ^ 53 \<longrightarrow>
            watch_time_seconds (metrics (out ! 0)) = num (n * 60)" by blast
  from this [rule_format, of 7] m
  have "watch_time_seconds (metrics (out ! 0)) = num (7 * 60)" by simp
  with run len m show "\<exists>out. transformRows E ?H ?R = Inr out \<and> 0 < length out \<and>
     watch_time_minutes (metrics (out ! 0)) = num 7 \<and>
     watch_time_seconds (metrics (out ! 0)) = num 420"
    by auto
qed

text \<open>
  C4. For every row the transform returns and every column of \<open>metric_columns\<close>: when no
  header carries the column's name the field is 0; otherwise the field is the number
  \<^verbatim>\<open>Number\<close> makes of the value at the column's index of the row, and 0 when that is
  NaN.
\<close>

theorem numeric_fields_coerced:
  assumes "transformRows E columnHeaders rows = Inr out" and "i < length out"
    and "(key, field) \<in> set metric_columns"
  shows "\<exists>hs rs. default_param columnHeaders (JArr []) = JArr hs \<and> rows = JArr rs \<and>
           length rs = length out \<and>
           (case headerIndex hs (JStr key) of
              None \<Rightarrow> field (metrics (out ! i)) = num 0
            | Some idx \<Rightarrow> \<exists>v n. index (rs ! i) idx = Inr v \<and> to_number E v = Inr n \<and>
                field (metrics (out ! i)) = (if n = NaN then num 0 else n))"
proof -
  from transformRows_nth [OF assms(1,2)] obtain hs rs where
    hs: "default_param columnHeaders (JArr []) = JArr hs" and rs: "rows = JArr rs" and
    len: "length rs = length out" and
    row: "transformRow E (headerIndex hs) (rs ! i) = Inr (out ! i)" by blast
  from getNumber_Inr [OF transformRow_metric_columns [OF row assms(3)]] hs rs len
  show ?thesis by blast
qed

theorem numeric_fields_coerced_witness:
  "\<forall>E. \<exists>out.
     transformRows E (JArr [JObj [(''name'', JStr ''likes'')], JObj [(''name'', JStr ''shares'')]])
       (JArr [JArr [JNum (num 9), JStr ''n/a'']]) = Inr out \<and>
     0 < length out \<and> (''likes'', likes) \<in> set metric_columns \<and>
     likes (metrics (out ! 0)) = num 9 \<and>
     shares (metrics (out ! 0)) = (if StringToNumber E ''n/a'' = NaN then num 0
                                    else StringToNumber E ''n/a'') \<and>
     views (metrics (out ! 0)) = num 0"
proof
  fix E
  let ?H = "JArr [JObj [(''name'', JStr ''likes'')], JObj [(''name'', JStr ''shares'')]]"
  let ?R = "JArr [JArr [JNum (num 9), JStr ''n/a'']]"
  have hi: "headerIndex [JObj [(''name'', JStr ''likes'')], JObj [(''name'', JStr ''shares'')]]
              = [JStr ''likes'' \<mapsto> 0, JStr ''shares'' \<mapsto> 1]"
    by (simp add: headerIndex_def set_header_def opt_member_def nullish_def upt_rec)
  obtain out where run: "transformRows E ?H ?R = Inr out" and len: "length out = 1"
    by (simp add: transformRows_def default_param_def hi
        transformRow_def getString_def getNumber_def bind_def Let_def)
  from len have pos: "0 < length out" by simp
  have c1: "(''likes'', likes) \<in> set metric_columns"
    and c2: "(''shares'', shares) \<in> set metric_columns"
    and c3: "(''views'', views) \<in> set metric_columns"
    by (simp_all add: metric_columns_def)
  from numeric_fields_coerced [OF run pos c1]
  have l: "likes (metrics (out ! 0)) = num 9"
    by (simp add: default_param_def hi)
  from numeric_fields_coerced [OF run pos c2]
  have s: "shares (metrics (out ! 0)) = (if StringToNumber E ''n/a'' = NaN then num 0
                                    else StringToNumber E ''n/a'')"
    by (simp add: default_param_def hi)
  from numeric_fields_coerced [OF run pos c3]
  have v: "views (metrics (out ! 0)) = num 0"
    by (simp add: default_param_def hi)
  from run pos c1 l s v show "\<exists>out. transformRows E ?H ?R = Inr out \<and>
     0 < length out \<and> (''likes'', likes) \<in> set metric_columns \<and>
     likes (metrics (out ! 0)) = num 9 \<and>
     shares (metrics (out ! 0)) = (if StringToNumber E ''n/a'' = NaN then num 0
                                    else StringToNumber E ''n/a'') \<and>
     views (metrics (out ! 0)) = num 0"
    by blast
qed

text \<open>
  C6. The scenario of the specification: one row \<^verbatim>\<open>["abc123", 100, 50, 30, 5, 2, 1]\<close>
  under the headers video, views, estimatedMinutesWatched, averageViewDuration, likes,
  comments, shares gives exactly one row, with that identifier and those metrics, the
  seconds being 3000.
\<close>

theorem transformRows_scenario:
  "transformRows E
     (JArr [JObj [(''name'', JStr ''video'')], JObj [(''name'', JStr ''views'')],
            JObj [(''name'', JStr ''estimatedMinutesWatched'')],
            JObj [(''name'', JStr ''averageViewDuration'')], JObj [(''name'', JStr ''likes'')],
            JObj [(''name'', JStr ''comments'')], JObj [(''name'', JStr ''shares'')]])
     (JArr [JArr [JStr ''abc123'', JNum (num 100), JNum (num 50), JNum (num 30),
                  JNum (num 5), JNum (num 2), JNum (num 1)]])
   = Inr [\<lparr> videoId = ''abc123'',
            metrics = \<lparr> views = num 100, watch_time_minutes = num 50,
                        watch_time_seconds = num 3000, average_view_duration_sec = num 30,
                        likes = num 5, comments = num 2, shares = num 1 \<rparr> \<rparr>]"
proof -
  have "js_mul (num 50) (num 60) = num 3000"
    using js_mul_num_exact [of 50 60] by simp
  then show ?thesis
    by (simp add: transformRows_def default_param_def headerIndex_def set_header_def
        opt_member_def nullish_def transformRow_def getString_def getNumber_def bind_def
        upt_rec Let_def)
qed



section \<open>Properties of the enrichment, the normalization and the run\<close>

subsection \<open>The chunk loop\<close>

lemma eff_bind_Inl [simp]: "eff_bind (cs, Inl e) f = (cs, Inl e)"
  by (simp add: eff_bind_def)

lemma eff_bind_Inr [simp]: "eff_bind (cs, Inr x) f = (cs @ fst (f x), snd (f x))"
  by (simp add: eff_bind_def split: prod.splits)

lemma fetch_chunks_done: "\<not> i < length ids \<Longrightarrow> fetch_chunks W tok ids i result = ([], Inr result)"
  by (subst fetch_chunks.simps) (simp add: pure_def)

lemma fetch_chunks_unfold:
  "i < length ids \<Longrightarrow>
   fetch_chunks W tok ids i result =
     (let chunk = take chunkSize (drop i ids)
      in case videos_endpoint W i chunk of
           None \<Rightarrow> ([VideosRequest tok chunk], Inl FetchError)
         | Some resp \<Rightarrow>
             if \<not> ok resp then ([VideosRequest tok chunk], Inl (Exit 1))
             else (case json resp of
                     None \<Rightarrow> ([VideosRequest tok chunk], Inl SyntaxError)
                   | Some payload \<Rightarrow>
                       (case add_items payload result of
                          Inl e \<Rightarrow> ([VideosRequest tok chunk], Inl e)
                        | Inr result' \<Rightarrow>
                            (VideosRequest tok chunk
                               # fst (fetch_chunks W tok ids (i + chunkSize) result'),
                             snd (fetch_chunks W tok ids (i + chunkSize) result')))))"
  by (subst fetch_chunks.simps)
    (simp add: Let_def request_def fetched_def lift_def response_json_def
      split: option.splits sum.splits)

lemma fetch_chunks_step:
  assumes "i < length ids" and "fetch_chunks W tok ids i result = (cs, r)"
  shows "(cs = [VideosRequest tok (take chunkSize (drop i ids))] \<and> (\<exists>e. r = Inl e)) \<or>
         (\<exists>resp payload result' cs'.
            videos_endpoint W i (take chunkSize (drop i ids)) = Some resp \<and> ok resp \<and>
            json resp = Some payload \<and> add_items payload result = Inr result' \<and>
            fetch_chunks W tok ids (i + chunkSize) result' = (cs', r) \<and>
            cs = VideosRequest tok (take chunkSize (drop i ids)) # cs')"
proof -
  let ?chunk = "take chunkSize (drop i ids)"
  note u = assms(2) [unfolded fetch_chunks_unfold [OF assms(1)] Let_def]
  show ?thesis
  proof (cases "videos_endpoint W i ?chunk")
    case None
    with u have "cs = [VideosRequest tok ?chunk]" and "r = Inl FetchError" by auto
    then show ?thesis by simp
  next
    case (Some resp)
    show ?thesis
    proof (cases "ok resp")
      case False
      with u Some have "cs = [VideosRequest tok ?chunk]" and "r = Inl (Exit 1)" by auto
      then show ?thesis by simp
    next
      case True
      show ?thesis
      proof (cases "json resp")
        case None
        with u Some True have "cs = [VideosRequest tok ?chunk]" and "r = Inl SyntaxError"
          by auto
        then show ?thesis by simp
      next
        case payload: (Some payload)
        show ?thesis
        proof (cases "add_items payload result")
          case (Inl e)
          with u Some True payload have "cs = [VideosRequest tok ?chunk]" and "r = Inl e"
            by auto
          then show ?thesis by simp
        next
          case (Inr result')
          with u Some True payload
          have "cs = VideosRequest tok ?chunk # fst (fetch_chunks W tok ids (i + chunkSize) result')"
            and "r = snd (fetch_chunks W tok ids (i + chunkSize) result')"
            by auto
          then have "fetch_chunks W tok ids (i + chunkSize) result'
                       = (fst (fetch_chunks W tok ids (i + chunkSize) result'), r)"
            by simp
          with Some True payload Inr \<open>cs = _\<close> show ?thesis by blast
        qed
      qed
    qed
  qed
qed

lemma chunk_count_step:
  assumes "i < n"
  shows "Suc ((n - (i + 50) + 49) div 50) = (n - i + 49) div (50::nat)"
proof (cases "50 \<le> n - i")
  case True
  then have "n - i + 49 = (n - (i + 50) + 49) + 50" by simp
  then show ?thesis by (simp only: div_add_self2)
next
  case False
  with assms have "n - (i + 50) = 0" and "50 \<le> n - i + 49" and "n - i + 49 < 100" by simp_all
  then have "(n - i + 49) div 50 = 1" and "(n - (i + 50) + 49) div 50 = 0" by simp_all
  then show ?thesis by simp
qed

lemma fetch_chunks_calls:
  "fetch_chunks W tok ids i result = (cs, r) \<Longrightarrow>
     (\<forall>c \<in> set cs. \<exists>chunk. c = VideosRequest tok chunk \<and> chunk \<noteq> [] \<and>
         length chunk \<le> chunkSize \<and> set chunk \<subseteq> set ids) \<and>
     length cs \<le> (length ids - i + 49) div 50 \<and>
     (\<forall>mm. r = Inr mm \<longrightarrow> length cs = (length ids - i + 49) div 50)"
proof (induction "length ids - i" arbitrary: i result cs r rule: less_induct)
  case less
  show ?case
  proof (cases "i < length ids")
    case False
    with less.prems fetch_chunks_done [OF False, of W tok result] show ?thesis by simp
  next
    case True
    let ?chunk = "take chunkSize (drop i ids)"
    have chunk: "?chunk \<noteq> [] \<and> length ?chunk \<le> chunkSize \<and> set ?chunk \<subseteq> set ids"
      using True by (auto simp: chunkSize_def dest: in_set_takeD in_set_dropD)
    have one: "1 \<le> (length ids - i + 49) div 50" using True by simp
    from fetch_chunks_step [OF True less.prems] show ?thesis
    proof (elim disjE conjE exE)
      fix e assume "cs = [VideosRequest tok ?chunk]" "r = Inl e"
      with chunk one show ?thesis by simp
    next
      fix resp payload result' cs'
      assume rec: "fetch_chunks W tok ids (i + chunkSize) result' = (cs', r)"
        and cs: "cs = VideosRequest tok ?chunk # cs'"
      have "length ids - (i + chunkSize) < length ids - i"
        using True by (simp add: chunkSize_def)
      from less.hyps [OF this rec]
      have ih1: "\<forall>c \<in> set cs'. \<exists>chunk. c = VideosRequest tok chunk \<and> chunk \<noteq> [] \<and>
                   length chunk \<le> chunkSize \<and> set chunk \<subseteq> set ids"
        and ih2: "length cs' \<le> (length ids - (i + chunkSize) + 49) div 50"
        and ih3: "\<forall>mm. r = Inr mm \<longrightarrow> length cs' = (length ids - (i + chunkSize) + 49) div 50"
        by blast+
      have arith: "Suc ((length ids - (i + chunkSize) + 49) div 50) = (length ids - i + 49) div 50"
        using chunk_count_step [OF True] unfolding chunkSize_def by simp
      from ih1 chunk cs have "\<forall>c \<in> set cs. \<exists>chunk. c = VideosRequest tok chunk \<and> chunk \<noteq> [] \<and>
                   length chunk \<le> chunkSize \<and> set chunk \<subseteq> set ids" by simp
      moreover from ih2 cs arith have "length cs \<le> (length ids - i + 49) div 50" by simp
      moreover from ih3 cs arith have "\<forall>mm. r = Inr mm \<longrightarrow> length cs = (length ids - i + 49) div 50"
        by simp
      ultimately show ?thesis by blast
    qed
  qed
qed

lemma ceiling_div_50: "\<lceil>rat_of_nat n / 50\<rceil> = int ((n + 49) div 50)"
proof -
  have "rat_of_nat n / 50 = of_int (int n) / of_int 50" by simp
  then have "\<lceil>rat_of_nat n / 50\<rceil> = - (- int n div 50)"
    by (simp only: ceiling_divide_eq_div)
  also have "\<dots> = int ((n + 49) div 50)" by linarith
  finally show ?thesis .
qed
text \<open>
  C5. Every call of the metadata enrichment is a request for video metadata that carries
  a chunk of at most 50 identifiers. For a list of \<open>N\<close> identifiers the enrichment makes
  exactly \<open>\<lceil>N / 50\<rceil>\<close> calls when it returns its map (none when \<open>N = 0\<close>), and never
  more than that: a chunk whose request fails ends the process after that call.
\<close>

theorem metadata_batching:
  "(\<forall>c \<in> set (fst (fetchVideoMetadata W tok ids)).
       \<exists>chunk. c = VideosRequest tok chunk \<and> length chunk \<le> 50) \<and>
   int (length (fst (fetchVideoMetadata W tok ids))) \<le> \<lceil>rat_of_nat (length ids) / 50\<rceil> \<and>
   (\<forall>mm. snd (fetchVideoMetadata W tok ids) = Inr mm \<longrightarrow>
       int (length (fst (fetchVideoMetadata W tok ids))) = \<lceil>rat_of_nat (length ids) / 50\<rceil>)"
proof (cases "ids = []")
  case True
  then show ?thesis by (simp add: fetchVideoMetadata_def pure_def)
next
  case False
  obtain cs r where run: "fetch_chunks W tok ids 0 Map.empty = (cs, r)"
    by (cases "fetch_chunks W tok ids 0 Map.empty")
  with False have f: "fetchVideoMetadata W tok ids = (cs, r)"
    by (simp add: fetchVideoMetadata_def)
  from fetch_chunks_calls [OF run]
  have a: "\<forall>c \<in> set cs. \<exists>chunk. c = VideosRequest tok chunk \<and> length chunk \<le> 50"
    and b: "length cs \<le> (length ids + 49) div 50"
    and c: "\<forall>mm. r = Inr mm \<longrightarrow> length cs = (length ids + 49) div 50"
    unfolding chunkSize_def by (blast, simp, simp)
  from a b c show ?thesis unfolding f ceiling_div_50 by simp
qed

lemma add_item_dom:
  assumes "dom result \<subseteq> Collect truthy"
  shows "dom (add_item result item) \<subseteq> Collect truthy"
proof (cases "truthy (opt_member item ''id'')")
  case False
  with assms show ?thesis by (simp add: add_item_def)
next
  case True
  then have "truthy (get_prop item ''id'')"
    by (simp add: opt_member_def split: if_splits)
  with assms True show ?thesis by (auto simp: add_item_def Let_def)
qed

lemma foldl_add_item_dom:
  "dom result \<subseteq> Collect truthy \<Longrightarrow> dom (foldl add_item result items) \<subseteq> Collect truthy"
  by (induction items arbitrary: result) (simp_all add: add_item_dom)

lemma add_items_dom:
  assumes "add_items payload result = Inr result'" and "dom result \<subseteq> Collect truthy"
  shows "dom result' \<subseteq> Collect truthy"
proof -
  from assms(1) obtain items where items: "member payload ''items'' = Inr items"
    and r: "(if nullish items then Inr result
             else (case items of JArr its \<Rightarrow> Inr (foldl add_item result its)
                   | _ \<Rightarrow> Inl TypeError)) = Inr result'"
    unfolding add_items_def bind_eq_Inr by blast
  show ?thesis
  proof (cases "nullish items")
    case True
    with r assms(2) show ?thesis by simp
  next
    case False
    with r obtain its where "result' = foldl add_item result its"
      by (cases items) auto
    with foldl_add_item_dom [OF assms(2)] show ?thesis by simp
  qed
qed

lemma fetch_chunks_dom:
  "fetch_chunks W tok ids i result = (cs, Inr mm) \<Longrightarrow> dom result \<subseteq> Collect truthy \<Longrightarrow>
     dom mm \<subseteq> Collect truthy"
proof (induction "length ids - i" arbitrary: i result cs rule: less_induct)
  case less
  show ?case
  proof (cases "i < length ids")
    case False
    with less.prems fetch_chunks_done [OF False, of W tok result] show ?thesis by simp
  next
    case True
    from fetch_chunks_step [OF True less.prems(1)] obtain resp payload result' cs' where
      add: "add_items payload result = Inr result'" and
      rec: "fetch_chunks W tok ids (i + chunkSize) result' = (cs', Inr mm)"
      by auto
    have "length ids - (i + chunkSize) < length ids - i"
      using True by (simp add: chunkSize_def)
    from less.hyps [OF this rec add_items_dom [OF add less.prems(2)]] show ?thesis .
  qed
qed

lemma fetchVideoMetadata_dom:
  assumes "fetchVideoMetadata W tok ids = (cs, Inr mm)"
  shows "dom mm \<subseteq> Collect truthy"
proof (cases "ids = []")
  case True
  with assms show ?thesis by (auto simp: fetchVideoMetadata_def pure_def)
next
  case False
  with assms have "fetch_chunks W tok ids 0 Map.empty = (cs, Inr mm)"
    by (simp add: fetchVideoMetadata_def)
  from fetch_chunks_dom [OF this] show ?thesis by simp
qed

lemma fetchVideoMetadata_calls:
  assumes "fetchVideoMetadata W tok ids = (cs, r)" and "c \<in> set cs"
  shows "\<exists>chunk. c = VideosRequest tok chunk \<and> set chunk \<subseteq> set ids"
proof (cases "ids = []")
  case True
  with assms show ?thesis by (auto simp: fetchVideoMetadata_def pure_def)
next
  case False
  with assms have "fetch_chunks W tok ids 0 Map.empty = (cs, r)"
    by (simp add: fetchVideoMetadata_def)
  from fetch_chunks_calls [OF this] assms(2) show ?thesis by blast
qed

subsection \<open>Normalization\<close>

lemma coalesce_defined: "b \<noteq> JUndefined \<Longrightarrow> coalesce a b \<noteq> JUndefined"
  by (simp add: coalesce_def nullish_def)

lemma normalize_row_eq:
  "normalize_row mm r =
     Inr (let meta = mm (JStr (videoId r))
          in if truthy (meta_field meta privacyStatus) \<and>
                meta_field meta privacyStatus \<noteq> JStr ''public''
             then JNull
             else JObj
               [(''platform'', JStr ''youtube''),
                (''post_id'', JStr (videoId r)),
                (''permalink'', JStr (''https://www.youtube.com/watch?v='' @ videoId r)),
                (''created_at'', coalesce (meta_field meta publishedAt) JNull),
                (''text'', coalesce (meta_field meta description) JNull),
                (''hashtags'', coalesce (meta_field meta tags) (JArr [])),
                (''metrics'', metrics_object (metrics r)),
                (''extra'', if truthy (meta_field meta title)
                            then JObj [(''title'', meta_field meta title)] else JObj [])])"
  by (simp add: normalize_row_def standardize_def nullish_def default_param_def Let_def
      coalesce_defined metrics_object_def)

lemma normalize_row_total: "\<exists>v. normalize_row mm r = Inr v"
  by (simp add: normalize_row_eq)

lemma normalize_total: "\<exists>recs. normalize mm raws = Inr recs"
proof -
  from map_throwing_total [of raws "normalize_row mm"] normalize_row_total
  obtain xs where "map_throwing (normalize_row mm) raws = Inr xs" by blast
  then show ?thesis by (simp add: normalize_def bind_def)
qed

lemma normalize_members:
  assumes "normalize mm raws = Inr recs"
  shows "rec \<in> set recs \<longleftrightarrow> truthy rec \<and> (\<exists>r \<in> set raws. normalize_row mm r = Inr rec)"
proof -
  from assms obtain xs where m: "map_throwing (normalize_row mm) raws = Inr xs"
    and recs: "recs = filter truthy xs"
    by (auto simp: normalize_def bind_eq_Inr)
  from map_throwing_Inr [OF m] have len: "length xs = length raws"
    and nth: "\<And>i. i < length raws \<Longrightarrow> normalize_row mm (raws ! i) = Inr (xs ! i)"
    by simp_all
  have "rec \<in> set xs \<longleftrightarrow> (\<exists>r \<in> set raws. normalize_row mm r = Inr rec)"
  proof
    assume "rec \<in> set xs"
    then obtain i where "i < length xs" "xs ! i = rec" by (auto simp: in_set_conv_nth)
    with len nth [of i] show "\<exists>r \<in> set raws. normalize_row mm r = Inr rec"
      by (metis nth_mem)
  next
    assume "\<exists>r \<in> set raws. normalize_row mm r = Inr rec"
    then obtain i where "i < length raws" "normalize_row mm (raws ! i) = Inr rec"
      by (auto simp: in_set_conv_nth)
    with len nth [of i] show "rec \<in> set xs" by (metis nth_mem sum.inject(2))
  qed
  with recs show ?thesis by auto
qed

lemma enrich_and_normalize_Inr:
  assumes "fetchVideoMetadata W tok (videoIds_of raws) = (cs, Inr mm)"
  shows "\<exists>records. enrich_and_normalize W tok raws = (cs, Inr records) \<and>
           normalize mm raws = Inr records"
proof -
  from normalize_total obtain records where "normalize mm raws = Inr records" by blast
  with assms show ?thesis by (simp add: enrich_and_normalize_def lift_def)
qed

text \<open>
  C1, as amended. When the enrichment returns its map, the normalization returns its
  records, and: every record comes from a row whose entry in the map, if there is one,
  has a privacy status that is \<^verbatim>\<open>"public"\<close> or falsy (\<^verbatim>\<open>null\<close>, or an empty
  string, zero or \<^verbatim>\<open>false\<close>); a row whose entry has a truthy privacy status other
  than \<^verbatim>\<open>"public"\<close> has no record; a row with no entry has its record, with
  \<^verbatim>\<open>null\<close>, \<^verbatim>\<open>[]\<close> and \<^verbatim>\<open>{}\<close> for the fields the metadata would give.
\<close>

theorem records_public_or_falsy:
  assumes "fetchVideoMetadata W tok (videoIds_of raws) = (cs, Inr mm)"
  shows "\<exists>records. enrich_and_normalize W tok raws = (cs, Inr records) \<and>
     (\<forall>rec \<in> set records. \<exists>r \<in> set raws. get_prop rec ''post_id'' = JStr (videoId r) \<and>
          (\<forall>m. mm (JStr (videoId r)) = Some m \<longrightarrow>
               privacyStatus m = JStr ''public'' \<or> \<not> truthy (privacyStatus m))) \<and>
     (\<forall>r \<in> set raws. \<forall>m. mm (JStr (videoId r)) = Some m \<and> truthy (privacyStatus m) \<and>
          privacyStatus m \<noteq> JStr ''public'' \<longrightarrow>
          (\<forall>rec \<in> set records. get_prop rec ''post_id'' \<noteq> JStr (videoId r))) \<and>
     (\<forall>r \<in> set raws. mm (JStr (videoId r)) = None \<longrightarrow>
          JObj [(''platform'', JStr ''youtube''),
                (''post_id'', JStr (videoId r)),
                (''permalink'', JStr (''https://www.youtube.com/watch?v='' @ videoId r)),
                (''created_at'', JNull),
                (''text'', JNull),
                (''hashtags'', JArr []),
                (''metrics'', metrics_object (metrics r)),
                (''extra'', JObj [])] \<in> set records)"
proof -
  from enrich_and_normalize_Inr [OF assms] obtain records where
    run: "enrich_and_normalize W tok raws = (cs, Inr records)" and
    n: "normalize mm raws = Inr records" by blast
  note mem = normalize_members [OF n]
  have kept: "get_prop rec ''post_id'' = JStr (videoId r) \<and>
          (\<forall>m. mm (JStr (videoId r)) = Some m \<longrightarrow>
               privacyStatus m = JStr ''public'' \<or> \<not> truthy (privacyStatus m))"
    if "truthy rec" and "normalize_row mm r = Inr rec" for rec r
    using that unfolding normalize_row_eq Let_def
    by (auto simp: meta_field_def split: if_splits)
  have a: "\<forall>rec \<in> set records. \<exists>r \<in> set raws. get_prop rec ''post_id'' = JStr (videoId r) \<and>
          (\<forall>m. mm (JStr (videoId r)) = Some m \<longrightarrow>
               privacyStatus m = JStr ''public'' \<or> \<not> truthy (privacyStatus m))"
    using mem kept by blast
  have b: "get_prop rec ''post_id'' \<noteq> JStr (videoId r)"
    if r: "mm (JStr (videoId r)) = Some m \<and> truthy (privacyStatus m) \<and>
          privacyStatus m \<noteq> JStr ''public''" and rec: "rec \<in> set records" for r m rec
  proof
    assume eq: "get_prop rec ''post_id'' = JStr (videoId r)"
    from rec mem obtain r' where "truthy rec" and r': "normalize_row mm r' = Inr rec" by blast
    from kept [OF this] eq have "videoId r' = videoId r"
      and "\<forall>m. mm (JStr (videoId r')) = Some m \<longrightarrow>
               privacyStatus m = JStr ''public'' \<or> \<not> truthy (privacyStatus m)"
      by simp_all
    with r show False by auto
  qed
  have c: "JObj [(''platform'', JStr ''youtube''),
                (''post_id'', JStr (videoId r)),
                (''permalink'', JStr (''https://www.youtube.com/watch?v='' @ videoId r)),
                (''created_at'', JNull),
                (''text'', JNull),
                (''hashtags'', JArr []),
                (''metrics'', metrics_object (metrics r)),
                (''extra'', JObj [])] \<in> set records"
    if "r \<in> set raws" and "mm (JStr (videoId r)) = None" for r
    unfolding mem using that
    by (auto simp: normalize_row_eq meta_field_def coalesce_def nullish_def intro!: bexI [of _ r])
  from run a b c show ?thesis by blast
qed

text \<open>
  C10. A row whose identifier is the empty string: the identifier is not in the list
  sent to the enrichment nor in any chunk requested, and when the enrichment returns its
  map the records hold the row's record, with the empty string as \<open>post_id\<close> and
  \<^verbatim>\<open>null\<close>, \<^verbatim>\<open>[]\<close> and \<^verbatim>\<open>{}\<close> for the fields the metadata would give.
\<close>

theorem empty_videoId_row:
  assumes "fetchVideoMetadata W tok (videoIds_of raws) = (cs, Inr mm)"
    and "r \<in> set raws" and "videoId r = []"
  shows "[] \<notin> set (videoIds_of raws) \<and>
         (\<forall>chunk. VideosRequest tok chunk \<in> set cs \<longrightarrow> [] \<notin> set chunk) \<and>
         (\<exists>records. enrich_and_normalize W tok raws = (cs, Inr records) \<and>
            JObj [(''platform'', JStr ''youtube''),
                  (''post_id'', JStr []),
                  (''permalink'', JStr ''https://www.youtube.com/watch?v=''),
                  (''created_at'', JNull),
                  (''text'', JNull),
                  (''hashtags'', JArr []),
                  (''metrics'', metrics_object (metrics r)),
                  (''extra'', JObj [])] \<in> set records)"
proof -
  have ids: "[] \<notin> set (videoIds_of raws)" by (simp add: videoIds_of_def)
  have calls: "[] \<notin> set chunk" if "VideosRequest tok chunk \<in> set cs" for chunk
    using fetchVideoMetadata_calls [OF assms(1) that] ids by auto
  from fetchVideoMetadata_dom [OF assms(1)] have none: "mm (JStr []) = None"
    by (auto simp: dom_def subset_iff)
  from enrich_and_normalize_Inr [OF assms(1)] obtain records where
    run: "enrich_and_normalize W tok raws = (cs, Inr records)" and
    n: "normalize mm raws = Inr records" by blast
  have "JObj [(''platform'', JStr ''youtube''),
                  (''post_id'', JStr []),
                  (''permalink'', JStr ''https://www.youtube.com/watch?v=''),
                  (''created_at'', JNull),
                  (''text'', JNull),
                  (''hashtags'', JArr []),
                  (''metrics'', metrics_object (metrics r)),
                  (''extra'', JObj [])] \<in> set records"
    unfolding normalize_members [OF n] using assms(2,3) none
    by (auto simp: normalize_row_eq meta_field_def coalesce_def nullish_def intro!: bexI [of _ r])
  with ids calls run show ?thesis by blast
qed

subsection \<open>The record constructor and the token exchange\<close>

text \<open>
  C9. \<^verbatim>\<open>standardize\<close> of an object returns an object of exactly the eight
  properties platform, post_id, permalink, created_at, text, hashtags, metrics and extra,
  in this order; the first three are the input's, the others are the input's or, where
  the input has none, \<^verbatim>\<open>null\<close>, \<^verbatim>\<open>null\<close>, \<^verbatim>\<open>[]\<close>, \<^verbatim>\<open>{}\<close> and
  \<^verbatim>\<open>{}\<close>. A property of any other name changes nothing in the result.
\<close>

theorem standardize_shape:
  "(\<exists>pl po pe c t h m e.
      standardize (JObj ps) =
        Inr (JObj [(''platform'', pl), (''post_id'', po), (''permalink'', pe),
                   (''created_at'', c), (''text'', t), (''hashtags'', h),
                   (''metrics'', m), (''extra'', e)]) \<and>
      pl = get_prop (JObj ps) ''platform'' \<and>
      po = get_prop (JObj ps) ''post_id'' \<and>
      pe = get_prop (JObj ps) ''permalink'' \<and>
      c = (if get_prop (JObj ps) ''created_at'' = JUndefined then JNull
           else get_prop (JObj ps) ''created_at'') \<and>
      t = (if get_prop (JObj ps) ''text'' = JUndefined then JNull
           else get_prop (JObj ps) ''text'') \<and>
      h = (if get_prop (JObj ps) ''hashtags'' = JUndefined then JArr []
           else get_prop (JObj ps) ''hashtags'') \<and>
      m = (if get_prop (JObj ps) ''metrics'' = JUndefined then JObj []
           else get_prop (JObj ps) ''metrics'') \<and>
      e = (if get_prop (JObj ps) ''extra'' = JUndefined then JObj []
           else get_prop (JObj ps) ''extra'')) \<and>
   (\<forall>k v. k \<notin> {''platform'', ''post_id'', ''permalink'', ''created_at'', ''text'',
                 ''hashtags'', ''metrics'', ''extra''} \<longrightarrow>
      standardize (JObj ((k, v) # ps)) = standardize (JObj ps) \<and>
      standardize (JObj (ps @ [(k, v)])) = standardize (JObj ps))"
proof (intro conjI allI impI)
  show "\<exists>pl po pe c t h m e.
      standardize (JObj ps) =
        Inr (JObj [(''platform'', pl), (''post_id'', po), (''permalink'', pe),
                   (''created_at'', c), (''text'', t), (''hashtags'', h),
                   (''metrics'', m), (''extra'', e)]) \<and>
      pl = get_prop (JObj ps) ''platform'' \<and>
      po = get_prop (JObj ps) ''post_id'' \<and>
      pe = get_prop (JObj ps) ''permalink'' \<and>
      c = (if get_prop (JObj ps) ''created_at'' = JUndefined then JNull
           else get_prop (JObj ps) ''created_at'') \<and>
      t = (if get_prop (JObj ps) ''text'' = JUndefined then JNull
           else get_prop (JObj ps) ''text'') \<and>
      h = (if get_prop (JObj ps) ''hashtags'' = JUndefined then JArr []
           else get_prop (JObj ps) ''hashtags'') \<and>
      m = (if get_prop (JObj ps) ''metrics'' = JUndefined then JObj []
           else get_prop (JObj ps) ''metrics'') \<and>
      e = (if get_prop (JObj ps) ''extra'' = JUndefined then JObj []
           else get_prop (JObj ps) ''extra'')"
    by (simp add: standardize_def nullish_def default_param_def)
next
  fix k v
  assume k: "k \<notin> {''platform'', ''post_id'', ''permalink'', ''created_at'', ''text'',
                 ''hashtags'', ''metrics'', ''extra''}"
  have at_front: "get_prop (JObj ((k, v) # ps)) n = get_prop (JObj ps) n" if "n \<noteq> k" for n
    using that by simp
  have at_end: "get_prop (JObj (ps @ [(k, v)])) n = get_prop (JObj ps) n" if "n \<noteq> k" for n
    using that by (simp add: map_add_def split: option.splits)
  from k have ne: "''platform'' \<noteq> k" "''post_id'' \<noteq> k" "''permalink'' \<noteq> k"
    "''created_at'' \<noteq> k" "''text'' \<noteq> k" "''hashtags'' \<noteq> k" "''metrics'' \<noteq> k"
    "''extra'' \<noteq> k"
    by auto
  show "standardize (JObj ((k, v) # ps)) = standardize (JObj ps)"
    unfolding standardize_def by (simp only: at_front [OF ne(1)] at_front [OF ne(2)] at_front [OF ne(3)]
        at_front [OF ne(4)] at_front [OF ne(5)] at_front [OF ne(6)] at_front [OF ne(7)] at_front [OF ne(8)])
      (simp add: nullish_def)
  show "standardize (JObj (ps @ [(k, v)])) = standardize (JObj ps)"
    unfolding standardize_def by (simp only: at_end [OF ne(1)] at_end [OF ne(2)] at_end [OF ne(3)]
        at_end [OF ne(4)] at_end [OF ne(5)] at_end [OF ne(6)] at_end [OF ne(7)] at_end [OF ne(8)])
      (simp add: nullish_def)
qed

lemma exchangeRefreshToken_calls: "fst (exchangeRefreshToken W) = [TokenRequest]"
  by (auto simp: exchangeRefreshToken_def request_def fetched_def lift_def pure_def
      response_json_def member_def split: option.splits)

lemma exchangeRefreshToken_Inr:
  assumes "snd (exchangeRefreshToken W) = Inr tok"
  shows "\<exists>resp data. token_endpoint W = Some resp \<and> ok resp \<and> json resp = Some data \<and>
           get_prop data ''access_token'' = tok \<and> truthy tok"
  using assms
  by (auto simp: exchangeRefreshToken_def request_def fetched_def lift_def pure_def
      response_json_def member_def split: option.splits if_splits)

lemma exchangeRefreshToken_Inl:
  assumes "snd (exchangeRefreshToken W) = Inl e"
  shows "e = Exit 1 \<or> e = FetchError \<or> e = SyntaxError \<or> e = TypeError"
  using assms
  by (auto simp: exchangeRefreshToken_def request_def fetched_def lift_def pure_def
      response_json_def member_def split: option.splits if_splits)

lemma main_body_cases:
  obtains (env) "main_body E W = ([], Inl (Exit 1))"
  | (dir) "main_body E W = ([EnsureDir ''data/analytics''], Inl FsError)"
  | (token) e where "snd (exchangeRefreshToken W) = Inl e"
      and "main_body E W = ([EnsureDir ''data/analytics'', TokenRequest], Inl e)"
  | (analytics) tok cs r where "snd (exchangeRefreshToken W) = Inr tok"
      and "main_body E W = (EnsureDir ''data/analytics'' # TokenRequest # cs, r)"
proof (cases "assertEnv W")
  case (Inl e)
  then have "e = Exit 1" by (auto simp: assertEnv_def Let_def split: if_splits)
  with Inl have "main_body E W = ([], Inl (Exit 1))" by (simp add: main_body_def lift_def)
  then show ?thesis by (rule env)
next
  case (Inr u)
  show ?thesis
  proof (cases "ensureDir_ok W ''data/analytics''")
    case False
    with Inr have "main_body E W = ([EnsureDir ''data/analytics''], Inl FsError)"
      by (simp add: main_body_def lift_def request_def)
    then show ?thesis by (rule dir)
  next
    case True
    obtain r where x: "exchangeRefreshToken W = ([TokenRequest], r)"
      using exchangeRefreshToken_calls [of W] by (cases "exchangeRefreshToken W") simp
    show ?thesis
    proof (cases r)
      case (Inl e)
      with Inr True x have "main_body E W = ([EnsureDir ''data/analytics'', TokenRequest], Inl e)"
        by (simp add: main_body_def lift_def request_def)
      with x Inl show ?thesis by (intro token [of e]) simp_all
    next
      case tok: (Inr tok)
      with Inr True x obtain cs r' where
        "main_body E W = (EnsureDir ''data/analytics'' # TokenRequest # cs, r')"
        by (simp add: main_body_def lift_def request_def)
      with x tok show ?thesis by (intro analytics [of tok cs r']) simp_all
    qed
  qed
qed

text \<open>
  C8. When the token endpoint answers with success and the body has no truthy
  \<^verbatim>\<open>access_token\<close> (it is missing, or the body is no JSON), the run ends with exit
  code 1 and has made no analytics request. A run that makes an analytics request has
  received a successful token response whose body holds a truthy \<^verbatim>\<open>access_token\<close>.
\<close>

theorem token_required_before_analytics:
  "((\<exists>resp. token_endpoint W = Some resp \<and> ok resp \<and>
        (\<forall>data. json resp = Some data \<longrightarrow> \<not> truthy (get_prop data ''access_token''))) \<longrightarrow>
      snd (main E W) = 1 \<and> (\<forall>tok s e. AnalyticsRequest tok s e \<notin> set (fst (main E W)))) \<and>
   (\<forall>tok s e. AnalyticsRequest tok s e \<in> set (fst (main E W)) \<longrightarrow>
      (\<exists>resp data. token_endpoint W = Some resp \<and> ok resp \<and> json resp = Some data \<and>
         truthy (get_prop data ''access_token'')))"
proof -
  have reached: "\<exists>resp data. token_endpoint W = Some resp \<and> ok resp \<and> json resp = Some data \<and>
         truthy (get_prop data ''access_token'')"
    if "AnalyticsRequest tok s e \<in> set (fst (main E W))" for tok s e
  proof (cases E W rule: main_body_cases)
    case env
    with that show ?thesis by (simp add: main_def)
  next
    case dir
    with that show ?thesis by (simp add: main_def)
  next
    case (token e')
    with that show ?thesis by (simp add: main_def split: failure.splits)
  next
    case (analytics tok' cs r)
    from exchangeRefreshToken_Inr [OF analytics(1)] show ?thesis by blast
  qed
  have code: "snd (main E W) = 1"
    if "token_endpoint W = Some resp \<and> ok resp \<and>
        (\<forall>data. json resp = Some data \<longrightarrow> \<not> truthy (get_prop data ''access_token''))" for resp
  proof (cases E W rule: main_body_cases)
    case env
    then show ?thesis by (simp add: main_def)
  next
    case dir
    then show ?thesis by (simp add: main_def)
  next
    case (token e')
    from exchangeRefreshToken_Inl [OF token(1)] token(2) show ?thesis
      by (auto simp: main_def)
  next
    case (analytics tok' cs r)
    from exchangeRefreshToken_Inr [OF analytics(1)] that show ?thesis by auto
  qed
  from reached code show ?thesis by (intro conjI allI impI) (blast, metis option.inject, blast)
qed

subsection \<open>The date window and the example run\<close>

lemma fetch_one:
  "fetchVideoMetadata (example_world privacy) tok [vid] =
     ([VideosRequest tok [vid]],
      (if vid = [] then Inr Map.empty
       else Inr [JStr vid \<mapsto>
         \<lparr> title = JStr ''Launch'', description = JNull, tags = JArr [],
           publishedAt = JStr ''2024-01-02T03:04:05Z'',
           privacyStatus = coalesce privacy JNull \<rparr>]))"
  by (simp add: fetchVideoMetadata_def fetch_chunks_unfold fetch_chunks_done chunkSize_def
      example_world_def add_items_def member_def nullish_def bind_def add_item_def
      opt_member_def video_item_def coalesce_def Let_def)

lemma civil_2024_01_29: "civil_from_days 19751 = (2024, 1, 29)"
  unfolding civil_from_days_def by (simp only: Let_def) simp

lemma civil_2024_01_01: "civil_from_days 19723 = (2024, 1, 1)"
  unfolding civil_from_days_def by (simp only: Let_def) simp

lemma format_2024_01_29: "format_yyyy_MM_dd 19751 = ''2024-01-29''"
  by (simp add: format_yyyy_MM_dd_def civil_2024_01_29 addLeadingZeros_def Let_def
      show_nat.simps)

lemma format_2024_01_01: "format_yyyy_MM_dd 19723 = ''2024-01-01''"
  by (simp add: format_yyyy_MM_dd_def civil_2024_01_01 addLeadingZeros_def Let_def
      show_nat.simps)

text \<open>
  C2. The analytics request carries, as start date, the day 28 days before today and, as
  end date, today: counted with both ends, these are 29 calendar days, not 28. On
  2024-01-29 the window sent is 2024-01-01 to 2024-01-29.
\<close>

theorem analytics_window_29_days:
  "fst (fetchAnalytics W tok) =
     [AnalyticsRequest tok (format_yyyy_MM_dd (subDays (today_at_fetch W) 28))
        (format_yyyy_MM_dd (today_at_fetch W))] \<and>
   days_inclusive (subDays (today_at_fetch W) 28) (today_at_fetch W) = 29 \<and>
   fst (fetchAnalytics (W\<lparr>today_at_fetch := 19751\<rparr>) tok) =
     [AnalyticsRequest tok ''2024-01-01'' ''2024-01-29'']"
proof -
  have calls: "fst (fetchAnalytics V tok) =
     [AnalyticsRequest tok (format_yyyy_MM_dd (subDays (today_at_fetch V) 28))
        (format_yyyy_MM_dd (today_at_fetch V))]" for V
    by (auto simp: fetchAnalytics_def Let_def request_def fetched_def lift_def
        split: option.splits)
  have "days_inclusive (subDays (today_at_fetch W) 28) (today_at_fetch W) = 29"
    by (simp add: days_inclusive_def subDays_def)
  moreover have "fst (fetchAnalytics (W\<lparr>today_at_fetch := 19751\<rparr>) tok) =
     [AnalyticsRequest tok ''2024-01-01'' ''2024-01-29'']"
    unfolding calls by (simp add: subDays_def format_2024_01_29 format_2024_01_01)
  ultimately show ?thesis using calls [of W] by simp
qed

text \<open>
  C1 as stated fails where the metadata records a privacy status that is present and
  not \<^verbatim>\<open>"public"\<close>, but falsy: with the empty string as the status of video \<open>a\<close>,
  the map records the empty string and the row still has its record.
\<close>

theorem non_public_empty_status_counterexample:
  "fetchVideoMetadata (example_world (JStr [])) (JStr ''ya29'') (videoIds_of [example_row ''a''])
     = ([VideosRequest (JStr ''ya29'') [''a'']],
        Inr [JStr ''a'' \<mapsto>
          \<lparr> title = JStr ''Launch'', description = JNull, tags = JArr [],
            publishedAt = JStr ''2024-01-02T03:04:05Z'', privacyStatus = JStr [] \<rparr>]) \<and>
   JStr [] \<noteq> JStr ''public'' \<and> JStr [] \<noteq> JNull \<and> JStr [] \<noteq> JUndefined \<and>
   enrich_and_normalize (example_world (JStr [])) (JStr ''ya29'') [example_row ''a'']
     = ([VideosRequest (JStr ''ya29'') [''a'']],
        Inr [JObj [(''platform'', JStr ''youtube''),
                   (''post_id'', JStr ''a''),
                   (''permalink'', JStr ''https://www.youtube.com/watch?v=a''),
                   (''created_at'', JStr ''2024-01-02T03:04:05Z''),
                   (''text'', JNull),
                   (''hashtags'', JArr []),
                   (''metrics'', metrics_object (metrics (example_row ''a''))),
                   (''extra'', JObj [(''title'', JStr ''Launch'')])]])"
proof -
  let ?W = "example_world (JStr [])"
  let ?m = "\<lparr> title = JStr ''Launch'', description = JNull, tags = JArr [],
            publishedAt = JStr ''2024-01-02T03:04:05Z'', privacyStatus = JStr [] \<rparr>"
  have ids: "videoIds_of [example_row ''a''] = [''a'']"
    by (simp add: videoIds_of_def example_row_def)
  have f: "fetchVideoMetadata ?W (JStr ''ya29'') (videoIds_of [example_row ''a''])
     = ([VideosRequest (JStr ''ya29'') [''a'']], Inr [JStr ''a'' \<mapsto> ?m])"
    unfolding ids fetch_one by (simp add: coalesce_def nullish_def)
  have v: "videoId (example_row ''a'') = ''a''" by (simp add: example_row_def)
  have r: "normalize_row [JStr ''a'' \<mapsto> ?m] (example_row ''a'') =
       Inr (JObj [(''platform'', JStr ''youtube''),
                   (''post_id'', JStr ''a''),
                   (''permalink'', JStr ''https://www.youtube.com/watch?v=a''),
                   (''created_at'', JStr ''2024-01-02T03:04:05Z''),
                   (''text'', JNull),
                   (''hashtags'', JArr []),
                   (''metrics'', metrics_object (metrics (example_row ''a''))),
                   (''extra'', JObj [(''title'', JStr ''Launch'')])])"
    unfolding normalize_row_eq v by (simp add: meta_field_def coalesce_def nullish_def)
  have n: "enrich_and_normalize ?W (JStr ''ya29'') [example_row ''a'']
     = ([VideosRequest (JStr ''ya29'') [''a'']],
        Inr [JObj [(''platform'', JStr ''youtube''),
                   (''post_id'', JStr ''a''),
                   (''permalink'', JStr ''https://www.youtube.com/watch?v=a''),
                   (''created_at'', JStr ''2024-01-02T03:04:05Z''),
                   (''text'', JNull),
                   (''hashtags'', JArr []),
                   (''metrics'', metrics_object (metrics (example_row ''a''))),
                   (''extra'', JObj [(''title'', JStr ''Launch'')])]])"
    unfolding enrich_and_normalize_def f normalize_def
    by (simp add: r bind_def lift_def)
  from f n show ?thesis by simp
qed
lemma fetch_chunks_example_succeeds:
  "\<exists>cs mm. fetch_chunks (example_world privacy) tok ids i result = (cs, Inr mm)"
proof (induction "length ids - i" arbitrary: i result rule: less_induct)
  case less
  show ?case
  proof (cases "i < length ids")
    case False
    from fetch_chunks_done [OF False] show ?thesis by blast
  next
    case True
    let ?chunk = "take chunkSize (drop i ids)"
    let ?result' = "foldl add_item result (map (video_item privacy) ?chunk)"
    have "length ids - (i + chunkSize) < length ids - i"
      using True by (simp add: chunkSize_def)
    from less [OF this, of ?result'] obtain cs mm where
      "fetch_chunks (example_world privacy) tok ids (i + chunkSize) ?result' = (cs, Inr mm)"
      by blast
    then have "fetch_chunks (example_world privacy) tok ids i result
                 = (VideosRequest tok ?chunk # cs, Inr mm)"
      unfolding fetch_chunks_unfold [OF True]
      by (simp add: example_world_def add_items_def member_def nullish_def bind_def Let_def)
    then show ?thesis by blast
  qed
qed

theorem metadata_batching_witness:
  "(\<exists>mm. snd (fetchVideoMetadata (example_world (JStr ''public'')) (JStr ''ya29'')
              (map show_nat [0..<120])) = Inr mm) \<and>
   length (fst (fetchVideoMetadata (example_world (JStr ''public'')) (JStr ''ya29'')
              (map show_nat [0..<120]))) = 3"
proof -
  let ?W = "example_world (JStr ''public'')"
  let ?ids = "map show_nat [0..<120]"
  have ne: "?ids \<noteq> []" by simp
  from fetch_chunks_example_succeeds [of "JStr ''public''" "JStr ''ya29''" ?ids 0 Map.empty]
  obtain cs mm where "fetch_chunks ?W (JStr ''ya29'') ?ids 0 Map.empty = (cs, Inr mm)"
    by blast
  with ne have ok: "snd (fetchVideoMetadata ?W (JStr ''ya29'') ?ids) = Inr mm"
    by (simp add: fetchVideoMetadata_def)
  from metadata_batching [of ?W "JStr ''ya29''" ?ids] ok
  have "int (length (fst (fetchVideoMetadata ?W (JStr ''ya29'') ?ids)))
          = \<lceil>rat_of_nat (length ?ids) / 50\<rceil>" by blast
  also have "\<dots> = int ((length ?ids + 49) div 50)" by (rule ceiling_div_50)
  also have "\<dots> = 3" by simp
  finally have "length (fst (fetchVideoMetadata ?W (JStr ''ya29'') ?ids)) = 3" by simp
  with ok show ?thesis by blast
qed

lemma videoIds_example: "videoIds_of [example_row ''a'', example_row []] = [''a'']"
  by (simp add: videoIds_of_def example_row_def)

lemma videoId_example [simp]: "videoId (example_row v) = v"
  by (simp add: example_row_def)

theorem records_public_or_falsy_witness:
  "\<exists>records.
     enrich_and_normalize (example_world (JStr ''private'')) (JStr ''ya29'')
         [example_row ''a'', example_row []]
       = ([VideosRequest (JStr ''ya29'') [''a'']], Inr records) \<and>
     list_all (\<lambda>rec. get_prop rec ''post_id'' \<noteq> JStr ''a'') records \<and>
     JObj [(''platform'', JStr ''youtube''),
           (''post_id'', JStr []),
           (''permalink'', JStr ''https://www.youtube.com/watch?v=''),
           (''created_at'', JNull),
           (''text'', JNull),
           (''hashtags'', JArr []),
           (''metrics'', metrics_object (metrics (example_row []))),
           (''extra'', JObj [])] \<in> set records"
proof -
  let ?W = "example_world (JStr ''private'')"
  let ?raws = "[example_row ''a'', example_row []]"
  let ?m = "\<lparr> title = JStr ''Launch'', description = JNull, tags = JArr [],
            publishedAt = JStr ''2024-01-02T03:04:05Z'', privacyStatus = JStr ''private'' \<rparr>"
  have f: "fetchVideoMetadata ?W (JStr ''ya29'') (videoIds_of ?raws)
     = ([VideosRequest (JStr ''ya29'') [''a'']], Inr [JStr ''a'' \<mapsto> ?m])"
    unfolding videoIds_example fetch_one by (simp add: coalesce_def nullish_def)
  from records_public_or_falsy [OF f] obtain records where
    run: "enrich_and_normalize ?W (JStr ''ya29'') ?raws
            = ([VideosRequest (JStr ''ya29'') [''a'']], Inr records)" and
    dropped: "\<forall>r \<in> set ?raws. \<forall>m. [JStr ''a'' \<mapsto> ?m] (JStr (videoId r)) = Some m \<and>
          truthy (privacyStatus m) \<and> privacyStatus m \<noteq> JStr ''public'' \<longrightarrow>
          (\<forall>rec \<in> set records. get_prop rec ''post_id'' \<noteq> JStr (videoId r))" and
    unmatched: "\<forall>r \<in> set ?raws. [JStr ''a'' \<mapsto> ?m] (JStr (videoId r)) = None \<longrightarrow>
          JObj [(''platform'', JStr ''youtube''),
                (''post_id'', JStr (videoId r)),
                (''permalink'', JStr (''https://www.youtube.com/watch?v='' @ videoId r)),
                (''created_at'', JNull),
                (''text'', JNull),
                (''hashtags'', JArr []),
                (''metrics'', metrics_object (metrics r)),
                (''extra'', JObj [])] \<in> set records"
    by blast
  from dropped [rule_format, of "example_row ''a''" ?m]
  have a: "list_all (\<lambda>rec. get_prop rec ''post_id'' \<noteq> JStr ''a'') records"
    by (simp add: list_all_iff)
  from unmatched [rule_format, of "example_row []"]
  have b: "JObj [(''platform'', JStr ''youtube''),
           (''post_id'', JStr []),
           (''permalink'', JStr ''https://www.youtube.com/watch?v=''),
           (''created_at'', JNull),
           (''text'', JNull),
           (''hashtags'', JArr []),
           (''metrics'', metrics_object (metrics (example_row []))),
           (''extra'', JObj [])] \<in> set records"
    by simp
  from run a b show ?thesis by blast
qed

theorem empty_videoId_row_witness:
  "[] \<notin> set (videoIds_of [example_row ''a'', example_row []]) \<and>
   (\<exists>records.
      enrich_and_normalize (example_world (JStr ''public'')) (JStr ''ya29'')
          [example_row ''a'', example_row []]
        = ([VideosRequest (JStr ''ya29'') [''a'']], Inr records) \<and>
      JObj [(''platform'', JStr ''youtube''),
            (''post_id'', JStr []),
            (''permalink'', JStr ''https://www.youtube.com/watch?v=''),
            (''created_at'', JNull),
            (''text'', JNull),
            (''hashtags'', JArr []),
            (''metrics'', metrics_object (metrics (example_row []))),
            (''extra'', JObj [])] \<in> set records)"
proof -
  let ?W = "example_world (JStr ''public'')"
  let ?raws = "[example_row ''a'', example_row []]"
  let ?m = "\<lparr> title = JStr ''Launch'', description = JNull, tags = JArr [],
            publishedAt = JStr ''2024-01-02T03:04:05Z'', privacyStatus = JStr ''public'' \<rparr>"
  have f: "fetchVideoMetadata ?W (JStr ''ya29'') (videoIds_of ?raws)
     = ([VideosRequest (JStr ''ya29'') [''a'']], Inr [JStr ''a'' \<mapsto> ?m])"
    unfolding videoIds_example fetch_one by (simp add: coalesce_def nullish_def)
  have r: "example_row [] \<in> set ?raws" by simp
  from empty_videoId_row [OF f r] show ?thesis by simp
qed

theorem standardize_shape_witness:
  "standardize (JObj [(''platform'', JStr ''youtube''), (''post_id'', JStr ''a''),
                      (''permalink'', JStr ''https://www.youtube.com/watch?v=a''),
                      (''note'', JBool True)])
     = Inr (JObj [(''platform'', JStr ''youtube''), (''post_id'', JStr ''a''),
                  (''permalink'', JStr ''https://www.youtube.com/watch?v=a''),
                  (''created_at'', JNull), (''text'', JNull), (''hashtags'', JArr []),
                  (''metrics'', JObj []), (''extra'', JObj [])]) \<and>
   standardize (JObj [(''note'', JBool True), (''platform'', JStr ''youtube'')])
     = standardize (JObj [(''platform'', JStr ''youtube'')])"
proof -
  let ?ps = "[(''platform'', JStr ''youtube''), (''post_id'', JStr ''a''),
              (''permalink'', JStr ''https://www.youtube.com/watch?v=a''),
              (''note'', JBool True)]"
  from standardize_shape [of ?ps, THEN conjunct1]
  have a: "standardize (JObj ?ps)
     = Inr (JObj [(''platform'', JStr ''youtube''), (''post_id'', JStr ''a''),
                  (''permalink'', JStr ''https://www.youtube.com/watch?v=a''),
                  (''created_at'', JNull), (''text'', JNull), (''hashtags'', JArr []),
                  (''metrics'', JObj []), (''extra'', JObj [])])"
    by (elim conjE exE) simp
  from standardize_shape [of "[(''platform'', JStr ''youtube'')]", THEN conjunct2]
  have "\<forall>k v. k \<notin> {''platform'', ''post_id'', ''permalink'', ''created_at'', ''text'',
                 ''hashtags'', ''metrics'', ''extra''} \<longrightarrow>
      standardize (JObj ((k, v) # [(''platform'', JStr ''youtube'')]))
        = standardize (JObj [(''platform'', JStr ''youtube'')])"
    by (intro allI impI) (drule spec, drule spec, drule mp, assumption, erule conjunct1)
  from this [rule_format, of "''note''" "JBool True"]
  have b: "standardize (JObj [(''note'', JBool True), (''platform'', JStr ''youtube'')])
     = standardize (JObj [(''platform'', JStr ''youtube'')])"
    by simp
  from a b show ?thesis by blast
qed
lemma example_transform:
  "transformRows E
     (JArr [JObj [(''name'', JStr ''video'')], JObj [(''name'', JStr ''views'')]])
     (JArr [JArr [JStr ''a'', JNum (num 10)]]) = Inr [example_row ''a'']"
proof -
  have "js_mul (num 0) (num 60) = num 0"
    using js_mul_num_exact [of 0 60] by simp
  then show ?thesis
    by (simp add: transformRows_def default_param_def headerIndex_def set_header_def
        opt_member_def nullish_def transformRow_def getString_def getNumber_def bind_def
        upt_rec Let_def example_row_def)
qed

lemma example_enrich:
  "enrich_and_normalize (example_world (JStr ''public'')) (JStr ''ya29'') [example_row ''a'']
     = ([VideosRequest (JStr ''ya29'') [''a'']],
        Inr [JObj [(''platform'', JStr ''youtube''),
                   (''post_id'', JStr ''a''),
                   (''permalink'', JStr ''https://www.youtube.com/watch?v=a''),
                   (''created_at'', JStr ''2024-01-02T03:04:05Z''),
                   (''text'', JNull),
                   (''hashtags'', JArr []),
                   (''metrics'', metrics_object (metrics (example_row ''a''))),
                   (''extra'', JObj [(''title'', JStr ''Launch'')])]])"
proof -
  let ?W = "example_world (JStr ''public'')"
  let ?m = "\<lparr> title = JStr ''Launch'', description = JNull, tags = JArr [],
            publishedAt = JStr ''2024-01-02T03:04:05Z'', privacyStatus = JStr ''public'' \<rparr>"
  have ids: "videoIds_of [example_row ''a''] = [''a'']"
    by (simp add: videoIds_of_def)
  have f: "fetchVideoMetadata ?W (JStr ''ya29'') (videoIds_of [example_row ''a''])
     = ([VideosRequest (JStr ''ya29'') [''a'']], Inr [JStr ''a'' \<mapsto> ?m])"
    unfolding ids fetch_one by (simp add: coalesce_def nullish_def)
  have r: "normalize_row [JStr ''a'' \<mapsto> ?m] (example_row ''a'') =
       Inr (JObj [(''platform'', JStr ''youtube''),
                   (''post_id'', JStr ''a''),
                   (''permalink'', JStr ''https://www.youtube.com/watch?v=a''),
                   (''created_at'', JStr ''2024-01-02T03:04:05Z''),
                   (''text'', JNull),
                   (''hashtags'', JArr []),
                   (''metrics'', metrics_object (metrics (example_row ''a''))),
                   (''extra'', JObj [(''title'', JStr ''Launch'')])])"
    unfolding normalize_row_eq videoId_example
    by (simp add: meta_field_def coalesce_def nullish_def)
  show ?thesis
    unfolding enrich_and_normalize_def f normalize_def
    by (simp add: r bind_def lift_def)
qed

lemma example_main:
  "main E (example_world (JStr ''public'')) =
     ([EnsureDir ''data/analytics'', TokenRequest,
       AnalyticsRequest (JStr ''ya29'') ''2024-01-01'' ''2024-01-29'',
       VideosRequest (JStr ''ya29'') [''a''],
       EnsureDir ''/work/data/analytics'',
       WriteJson ''/work/data/analytics/2024-01-29-youtube-analytics.json''
         [JObj [(''platform'', JStr ''youtube''),
                (''post_id'', JStr ''a''),
                (''permalink'', JStr ''https://www.youtube.com/watch?v=a''),
                (''created_at'', JStr ''2024-01-02T03:04:05Z''),
                (''text'', JNull),
                (''hashtags'', JArr []),
                (''metrics'', metrics_object (metrics (example_row ''a''))),
                (''extra'', JObj [(''title'', JStr ''Launch'')])]]],
      0)"
proof -
  let ?W = "example_world (JStr ''public'')"
  have env: "assertEnv ?W = Inr ()"
    by (simp add: assertEnv_def REQUIRED_ENV_def example_world_def)
  have dir: "ensureDir_ok ?W p" for p by (simp add: example_world_def)
  have wr: "writeJson_ok ?W p" for p by (simp add: example_world_def)
  have tok: "exchangeRefreshToken ?W = ([TokenRequest], Inr (JStr ''ya29''))"
    by (simp add: exchangeRefreshToken_def example_world_def request_def fetched_def
        lift_def pure_def response_json_def member_def nullish_def)
  have today: "today_at_fetch ?W = 19751" "today_at_save ?W = 19751" "cwd ?W = ''/work''"
    "path_join ?W = join_with ''/''"
    by (simp_all add: example_world_def)
  have an: "fetchAnalytics ?W (JStr ''ya29'') =
      ([AnalyticsRequest (JStr ''ya29'') ''2024-01-01'' ''2024-01-29''],
       Inr (JObj
                  [(''columnHeaders'', JArr [JObj [(''name'', JStr ''video'')],
                                             JObj [(''name'', JStr ''views'')]]),
                   (''rows'', JArr [JArr [JStr ''a'', JNum (num 10)]])]))"
    unfolding fetchAnalytics_def today Let_def
    by (simp add: subDays_def format_2024_01_29 format_2024_01_01 example_world_def
        request_def fetched_def lift_def response_json_def)
  have save: "saveStandardJson ?W ''youtube'' records =
      ([EnsureDir ''/work/data/analytics'',
        WriteJson ''/work/data/analytics/2024-01-29-youtube-analytics.json'' records],
       Inr ''/work/data/analytics/2024-01-29-youtube-analytics.json'')" for records
    unfolding saveStandardJson_def today Let_def
    by (simp add: dir wr format_2024_01_29 request_def pure_def)
  show ?thesis
    unfolding main_def main_body_def
    by (simp add: env tok an lift_def request_def dir member_def nullish_def
        example_transform example_enrich save pure_def)
qed

theorem token_required_before_analytics_witness:
  "\<forall>E.
     token_endpoint ((example_world (JStr ''public''))
         \<lparr>token_endpoint := Some \<lparr> ok = True, json = Some (JObj [(''token_type'', JStr ''Bearer'')]) \<rparr>\<rparr>)
       = Some \<lparr> ok = True, json = Some (JObj [(''token_type'', JStr ''Bearer'')]) \<rparr> \<and>
     get_prop (JObj [(''token_type'', JStr ''Bearer'')]) ''access_token'' = JUndefined \<and>
     snd (main E ((example_world (JStr ''public''))
         \<lparr>token_endpoint := Some \<lparr> ok = True, json = Some (JObj [(''token_type'', JStr ''Bearer'')]) \<rparr>\<rparr>)) = 1 \<and>
     (\<forall>tok s e. AnalyticsRequest tok s e \<notin> set (fst (main E ((example_world (JStr ''public''))
         \<lparr>token_endpoint := Some \<lparr> ok = True, json = Some (JObj [(''token_type'', JStr ''Bearer'')]) \<rparr>\<rparr>)))) \<and>
     AnalyticsRequest (JStr ''ya29'') ''2024-01-01'' ''2024-01-29''
       \<in> set (fst (main E (example_world (JStr ''public'')))) \<and>
     (\<exists>resp data. token_endpoint (example_world (JStr ''public'')) = Some resp \<and> ok resp \<and>
        json resp = Some data \<and> truthy (get_prop data ''access_token''))"
proof
  fix E
  let ?resp = "\<lparr> ok = True, json = Some (JObj [(''token_type'', JStr ''Bearer'')]) \<rparr>"
  let ?W = "(example_world (JStr ''public''))\<lparr>token_endpoint := Some ?resp\<rparr>"
  let ?V = "example_world (JStr ''public'')"
  have t: "token_endpoint ?W = Some ?resp" by simp
  have u: "get_prop (JObj [(''token_type'', JStr ''Bearer'')]) ''access_token'' = JUndefined"
    by simp
  have "\<exists>resp. token_endpoint ?W = Some resp \<and> ok resp \<and>
        (\<forall>data. json resp = Some data \<longrightarrow> \<not> truthy (get_prop data ''access_token''))"
    by (rule exI [of _ ?resp]) simp
  with token_required_before_analytics [of ?W E, THEN conjunct1]
  have a: "snd (main E ?W) = 1 \<and> (\<forall>tok s e. AnalyticsRequest tok s e \<notin> set (fst (main E ?W)))"
    by (rule mp)
  have m: "AnalyticsRequest (JStr ''ya29'') ''2024-01-01'' ''2024-01-29'' \<in> set (fst (main E ?V))"
    unfolding example_main by simp
  with token_required_before_analytics [of ?V E, THEN conjunct2]
  have b: "\<exists>resp data. token_endpoint ?V = Some resp \<and> ok resp \<and>
        json resp = Some data \<and> truthy (get_prop data ''access_token'')"
    by blast
  from t u a m b show "token_endpoint ?W = Some ?resp \<and>
     get_prop (JObj [(''token_type'', JStr ''Bearer'')]) ''access_token'' = JUndefined \<and>
     snd (main E ?W) = 1 \<and>
     (\<forall>tok s e. AnalyticsRequest tok s e \<notin> set (fst (main E ?W))) \<and>
     AnalyticsRequest (JStr ''ya29'') ''2024-01-01'' ''2024-01-29'' \<in> set (fst (main E ?V)) \<and>
     (\<exists>resp data. token_endpoint ?V = Some resp \<and> ok resp \<and>
        json resp = Some data \<and> truthy (get_prop data ''access_token''))"
    by (intro conjI) (assumption | erule conjunct1 | erule conjunct2)+
qed

end
